theory Spec2Isabelle
  imports Complex_Main "HOL-Library.Word"
begin

section \<open>The MPPT buck converter sketch as a state transformer\<close>

text \<open>
  The sketch \<^verbatim>\<open>MPPT_Buck_Converter_ACS712.ino\<close> keeps all of its data in global and
  function-static variables and talks to the hardware through \<^verbatim>\<open>analogRead\<close>,
  \<^verbatim>\<open>analogWrite\<close>, \<^verbatim>\<open>millis\<close>, \<^verbatim>\<open>delay\<close>, \<^verbatim>\<open>readVcc\<close> and the status LED.
  The model below threads one record of those variables through every function, takes each
  value the hardware hands to the program as an explicit argument, and appends each action
  on the hardware to a trace.

  Conventions of the model:
  \<^item> a \<^verbatim>\<open>float\<close> is a \<open>real\<close>, and the values assigned to variables are not rounded.
    The one test that compares a stored value with a computed intermediate result, the
    threshold \<^verbatim>\<open>targetOutputVoltage - 0.2\<close> of line 214, is modelled with the rounding of
    the target (AVR, where \<^verbatim>\<open>double\<close> has 32 bits as \<^verbatim>\<open>float\<close> has): the literal and
    the difference are rounded to binary32 by \<open>fl32\<close>. The only division whose
    divisor is not a non-zero literal is the one of \<^verbatim>\<open>readSensors\<close> that derives
    \<^verbatim>\<open>inputCurrent\<close>; it is modelled by \<open>fdiv\<close>, whose result \<open>None\<close> stands for the
    non-finite IEEE value (infinity or NaN) a division by zero leaves in the variable;
  \<^item> \<^verbatim>\<open>unsigned long\<close> time stamps are \<open>32 word\<close>, so the timer tests wrap as in C;
  \<^item> \<^verbatim>\<open>byte controlMode\<close> is an \<open>8 word\<close>, zero before the first arbitration;
  \<^item> text sent to the serial port is not part of the model: \<^verbatim>\<open>serialPrint\<close> only
    keeps its private time stamp, and \<^verbatim>\<open>led\<close>, which reads the state and changes none of
    it, is left out.
\<close>

subsection \<open>Build options, constants, hardware actions\<close>

text \<open>The two supported values of the build macro \<^verbatim>\<open>F_CPU\<close> (lines 73 to 78).\<close>

datatype f_cpu = F_CPU_16000000 | F_CPU_8000000

fun acs712VoltsPerAmp :: "f_cpu \<Rightarrow> real" where
  "acs712VoltsPerAmp F_CPU_16000000 = 0.185"
| "acs712VoltsPerAmp F_CPU_8000000 = 0.1221"

definition acs712Offset :: int where
  "acs712Offset = 504"

definition CV :: "8 word" where "CV = 1"
definition CC :: "8 word" where "CC = 2"
definition MPPT :: "8 word" where "MPPT = 3"
definition BP :: "8 word" where "BP = 4"

text \<open>What the program does to the hardware, in the order it does it.\<close>

datatype event = AnalogWrite int | LED_on | Delay nat

text \<open>The implicit conversion of a \<^verbatim>\<open>float\<close> argument to \<^verbatim>\<open>int\<close> truncates towards zero.\<close>

definition float_to_int :: "real \<Rightarrow> int" where
  "float_to_int x = (if 0 \<le> x then \<lfloor>x\<rfloor> else \<lceil>x\<rceil>)"

text \<open>Arduino's macro \<^verbatim>\<open>constrain(amt, low, high)\<close>.\<close>

definition constrain :: "real \<Rightarrow> real \<Rightarrow> real \<Rightarrow> real" where
  "constrain amt low high = (if amt < low then low else if amt > high then high else amt)"

text \<open>
  Rounding to binary32, to nearest with ties to even. \<open>binade n a\<close> is the largest
  \<open>k \<le> n\<close> with \<open>2 ^ k \<le> a * 2 ^ 126\<close> (or 0), so that for
  \<open>2 ^ e \<le> \<bar>x\<bar> < 2 ^ (e + 1)\<close> with \<open>- 126 \<le> e \<le> 127\<close> the spacing \<open>ulp32 x\<close> of the
  binary32 numbers around \<open>x\<close> is \<open>2 ^ (e - 23)\<close>, and \<open>2 ^ (- 149)\<close> below that range.
  Magnitudes of \<open>2 ^ 128\<close> and more, which binary32 rounds to infinity, do not occur in the
  threshold the function is used for.
\<close>

fun binade :: "nat \<Rightarrow> real \<Rightarrow> nat" where
  "binade 0 a = 0"
| "binade (Suc n) a = (if 2 ^ Suc n \<le> a * 2 ^ 126 then Suc n else binade n a)"

definition ulp32 :: "real \<Rightarrow> real" where
  "ulp32 x = 2 ^ binade 253 \<bar>x\<bar> / 2 ^ 149"

definition round_even :: "real \<Rightarrow> int" where
  "round_even y =
    (let f = \<lfloor>y\<rfloor>
     in if y - of_int f < 1 / 2 then f
        else if y - of_int f > 1 / 2 then f + 1
        else if even f then f else f + 1)"

definition fl32 :: "real \<Rightarrow> real" where
  "fl32 x = of_int (round_even (x / ulp32 x)) * ulp32 x"

text \<open>Division of two floats; \<open>None\<close> is the non-finite result of a zero divisor.\<close>

definition fdiv :: "real \<Rightarrow> real \<Rightarrow> real option" where
  "fdiv a b = (if b = 0 then None else Some (a / b))"

subsection \<open>Program state\<close>

record state =
  inputVoltage :: real
  inputCurrent :: "real option"
  outputPower :: real
  outputPowerDelta :: real
  outputPowerPrevious :: real
  outputVoltage :: real
  outputCurrent :: real
  controlMode :: "8 word"
  pwm :: real
  trackingDownwards :: bool
  vcc :: real
  minPanelVoltage :: real
  targetPanelVoltage :: real
  maxPanelVoltage :: real
  targetOutputVoltage :: real
  trackingIncrement :: real
  maxOutputCurrent :: real
  efficiency :: real
  raw :: "real list"
  lastMppt :: "32 word"
  lastCalc :: "32 word"
  lastVcc :: "32 word"
  lastPrint :: "32 word"
  trace :: "event list"

text \<open>The initial values of lines 58 to 94; variables without initialiser start at zero.\<close>

definition initial_state :: state where
  "initial_state =
    \<lparr> inputVoltage = 0, inputCurrent = Some 0, outputPower = 0, outputPowerDelta = 0,
      outputPowerPrevious = 9999, outputVoltage = 0, outputCurrent = 0, controlMode = 0,
      pwm = 0, trackingDownwards = False, vcc = 4.5, minPanelVoltage = 12,
      targetPanelVoltage = 14, maxPanelVoltage = 16, targetOutputVoltage = 4.2,
      trackingIncrement = 0.5, maxOutputCurrent = 3, efficiency = 0.82,
      raw = [0, 0, 0, 0], lastMppt = 0, lastCalc = 0, lastVcc = 0, lastPrint = 0,
      trace = [] \<rparr>"

subsection \<open>Values read from the hardware\<close>

text \<open>The three \<^verbatim>\<open>analogRead\<close> results of one call of \<^verbatim>\<open>readSensors\<close>.\<close>

record adc =
  vsense_in :: int
  isense_out :: int
  vsense_out :: int

text \<open>
  A polled timer calls \<^verbatim>\<open>millis()\<close> twice: once in its test and, when the test
  passes, once more to store the new time stamp.
\<close>

record timer =
  t_test :: "32 word"
  t_set :: "32 word"

text \<open>What \<^verbatim>\<open>checkVcc\<close> reads: its timer and the result of \<^verbatim>\<open>readVcc()\<close> in millivolts.\<close>

record vcc_in =
  vcc_timer :: timer
  vcc_mv :: int

text \<open>What one round of the undervoltage wait reads.\<close>

record wait_in =
  wait_vcc :: vcc_in
  wait_adc :: adc

text \<open>
  What one call of \<^verbatim>\<open>mppt\<close> reads: the first sensor sample, the rounds of the undervoltage
  wait the environment supplies, and the clock readings of the three timers.
\<close>

record mppt_in =
  adc0 :: adc
  waits :: "wait_in list"
  mppt_timer :: timer
  calc_timer :: timer
  print_timer :: timer

text \<open>What one pass of \<^verbatim>\<open>loop\<close> reads.\<close>

record loop_in =
  pot :: int
  cycle :: mppt_in
  end_vcc :: vcc_in

subsection \<open>Potentiometer, supply voltage, sensors\<close>

definition readPot :: "int \<Rightarrow> state \<Rightarrow> state" where
  "readPot p s = s\<lparr>targetOutputVoltage := real_of_int p / 1023 + 4.2\<rparr>"

definition checkVcc :: "vcc_in \<Rightarrow> state \<Rightarrow> state" where
  "checkVcc v s =
    (if 1000 \<le> t_test (vcc_timer v) - lastVcc s
     then s\<lparr>lastVcc := t_set (vcc_timer v), vcc := real_of_int (vcc_mv v) / 1000\<rparr>
     else s)"

text \<open>\<^verbatim>\<open>averageA\<close>: the window is shifted, the new sample stored, the mean returned.\<close>

definition averageA :: "f_cpu \<Rightarrow> int \<Rightarrow> state \<Rightarrow> real \<times> state" where
  "averageA cpu a s =
    (let r1 = (raw s)[3 := raw s ! 2];
         r2 = r1[2 := r1 ! 1];
         r3 = r2[1 := r2 ! 0];
         r4 = r3[0 := real_of_int (a - acs712Offset) * vcc s / acs712VoltsPerAmp cpu / 1024];
         average = (r4 ! 0 + r4 ! 1 + r4 ! 2 + r4 ! 3) / 4
     in (average, s\<lparr>raw := r4\<rparr>))"

definition readSensors :: "f_cpu \<Rightarrow> adc \<Rightarrow> state \<Rightarrow> state" where
  "readSensors cpu a s =
    (let s1 = s\<lparr>inputVoltage := real_of_int (vsense_in a) * vcc s / 93\<rparr>;
         (average, s2) = averageA cpu (isense_out a) s1;
         s3 = s2\<lparr>outputCurrent := average\<rparr>;
         s4 = s3\<lparr>outputPower := outputVoltage s3 * outputCurrent s3\<rparr>;
         s5 = s4\<lparr>outputVoltage :=
                   inputVoltage s4 - real_of_int (vsense_out a) * vcc s4 / 92\<rparr>
     in s5\<lparr>inputCurrent :=
             Option.bind (fdiv (outputCurrent s5 * outputVoltage s5) (inputVoltage s5))
               (\<lambda>q. fdiv q (efficiency s5))\<rparr>)"

subsection \<open>Lockout and the undervoltage wait\<close>

definition analogWrite :: "real \<Rightarrow> state \<Rightarrow> state" where
  "analogWrite v s = s\<lparr>trace := trace s @ [AnalogWrite (float_to_int v)]\<rparr>"

definition lockout :: "state \<Rightarrow> state" where
  "lockout s = (let s1 = s\<lparr>pwm := 0\<rparr> in analogWrite (pwm s1) s1)"

text \<open>The condition of the \<^verbatim>\<open>while\<close> loop of line 201.\<close>

definition undervoltage :: "state \<Rightarrow> bool" where
  "undervoltage s \<longleftrightarrow> outputVoltage s < 1.0 \<and> inputVoltage s < 15.0"

text \<open>One round of the loop body, lines 202 to 208.\<close>

definition wait_round :: "f_cpu \<Rightarrow> wait_in \<Rightarrow> state \<Rightarrow> state" where
  "wait_round cpu w s =
    (let s1 = s\<lparr>pwm := 0\<rparr>;
         s2 = analogWrite (pwm s1) s1;
         s3 = s2\<lparr>trace := trace s2 @ [LED_on]\<rparr>;
         s4 = s3\<lparr>trace := trace s3 @ [Delay 2000]\<rparr>;
         s5 = checkVcc (wait_vcc w) s4
     in readSensors cpu (wait_adc w) s5)"

text \<open>
  The loop itself. It runs one round per element of the list for as long as the condition
  holds; \<open>None\<close> means that the condition still held after the last round the environment
  supplied, so that the call of \<^verbatim>\<open>mppt\<close> has not left the loop.
\<close>

fun undervoltage_wait :: "f_cpu \<Rightarrow> wait_in list \<Rightarrow> state \<Rightarrow> state option" where
  "undervoltage_wait cpu [] s = (if undervoltage s then None else Some s)"
| "undervoltage_wait cpu (w # ws) s =
    (if undervoltage s then undervoltage_wait cpu ws (wait_round cpu w s) else Some s)"

subsection \<open>Voltage and current controllers, MPPT tracker\<close>

text \<open>Lines 214 to 218.\<close>

definition cv_branch :: "state \<Rightarrow> state" where
  "cv_branch s =
    (let s1 = s\<lparr>pwm := pwm s + (targetOutputVoltage s - outputVoltage s)\<rparr>;
         s2 = (if inputVoltage s1 < minPanelVoltage s1
               then s1\<lparr>pwm := pwm s1 - (minPanelVoltage s1 - inputVoltage s1)\<rparr> else s1)
     in s2\<lparr>controlMode := CV\<rparr>)"

text \<open>Lines 221 to 224.\<close>

definition cc_branch :: "state \<Rightarrow> state" where
  "cc_branch s =
    (let s1 = s\<lparr>pwm := pwm s - (outputCurrent s - maxOutputCurrent s)\<rparr>
     in s1\<lparr>controlMode := CC\<rparr>)"

text \<open>Lines 227 to 230.\<close>

definition bp_branch :: "state \<Rightarrow> state" where
  "bp_branch s = (let s1 = s\<lparr>pwm := pwm s - 1\<rparr> in s1\<lparr>controlMode := BP\<rparr>)"

text \<open>Lines 244 and 245: the target moves one increment in the current direction.\<close>

definition step_target :: "state \<Rightarrow> state" where
  "step_target s =
    (if trackingDownwards s
     then s\<lparr>targetPanelVoltage := targetPanelVoltage s - trackingIncrement s\<rparr>
     else s\<lparr>targetPanelVoltage := targetPanelVoltage s + trackingIncrement s\<rparr>)"

text \<open>
  The body of the direction timer, lines 239 to 270; the argument is the clock reading
  stored in \<^verbatim>\<open>lastMppt\<close>.
\<close>

definition direction_subloop :: "32 word \<Rightarrow> state \<Rightarrow> state" where
  "direction_subloop now s =
    (let s1 = s\<lparr>lastMppt := now\<rparr>;
         s2 = s1\<lparr>outputPowerDelta := outputPower s1 - outputPowerPrevious s1\<rparr>;
         s3 = step_target s2;
         s4 = (if targetPanelVoltage s3 \<le> minPanelVoltage s3
               then s3\<lparr>targetPanelVoltage := (minPanelVoltage s3 + maxPanelVoltage s3) / 2\<rparr>
               else if targetPanelVoltage s3 \<ge> maxPanelVoltage s3
               then s3\<lparr>targetPanelVoltage := (minPanelVoltage s3 + maxPanelVoltage s3) / 2\<rparr>
               else if outputPowerDelta s3 < 0.1
               then s3\<lparr>trackingDownwards := \<not> trackingDownwards s3\<rparr>
               else s3)
     in s4\<lparr>outputPowerPrevious := outputPower s4\<rparr>)"

text \<open>The \<^verbatim>\<open>else\<close> branch, lines 233 to 279.\<close>

definition mppt_branch :: "timer \<Rightarrow> timer \<Rightarrow> state \<Rightarrow> state" where
  "mppt_branch tm tc s =
    (let s1 = s\<lparr>controlMode := MPPT\<rparr>;
         s2 = (if 1000 \<le> t_test tm - lastMppt s1 then direction_subloop (t_set tm) s1 else s1)
     in if 50 \<le> t_test tc - lastCalc s2
        then s2\<lparr>lastCalc := t_set tc,
                pwm := pwm s2 - (targetPanelVoltage s2 - inputVoltage s2)\<rparr>
        else s2)"

text \<open>
  The three conditions of lines 214, 221 and 227. The second and third compare stored values;
  the first compares \<^verbatim>\<open>outputVoltage\<close> with the single-precision difference.
\<close>

definition cv_cond :: "state \<Rightarrow> bool" where
  "cv_cond s \<longleftrightarrow>
    outputVoltage s > fl32 (targetOutputVoltage s - fl32 0.2) \<and>
    outputCurrent s \<le> maxOutputCurrent s"

definition cc_cond :: "state \<Rightarrow> bool" where
  "cc_cond s \<longleftrightarrow>
    outputCurrent s > maxOutputCurrent s \<and> outputVoltage s < targetOutputVoltage s"

definition bp_cond :: "state \<Rightarrow> bool" where
  "bp_cond s \<longleftrightarrow>
    outputCurrent s > maxOutputCurrent s \<and> outputVoltage s > targetOutputVoltage s"

text \<open>The chain of \<^verbatim>\<open>if\<close> and \<^verbatim>\<open>else if\<close> of lines 214 to 279.\<close>

definition controllers :: "timer \<Rightarrow> timer \<Rightarrow> state \<Rightarrow> state" where
  "controllers tm tc s =
    (if cv_cond s then cv_branch s
     else if cc_cond s then cc_branch s
     else if bp_cond s then bp_branch s
     else mppt_branch tm tc s)"

subsection \<open>Protection, output, the control cycle\<close>

text \<open>Line 282.\<close>

definition protection :: "state \<Rightarrow> state" where
  "protection s = (if outputVoltage s > targetOutputVoltage s + 1.0 then lockout s else s)"

definition serialPrint :: "timer \<Rightarrow> state \<Rightarrow> state" where
  "serialPrint tp s = (if 1000 \<le> t_test tp - lastPrint s then s\<lparr>lastPrint := t_set tp\<rparr> else s)"

text \<open>Lines 285 to 288.\<close>

definition write_output :: "timer \<Rightarrow> state \<Rightarrow> state" where
  "write_output tp s =
    (let s1 = s\<lparr>pwm := constrain (pwm s) 0 150\<rparr>;
         s2 = serialPrint tp s1
     in analogWrite (pwm s2) s2)"

text \<open>
  The Measurement Snapshot the controllers see: the result of \<^verbatim>\<open>readSensors\<close> followed
  by the undervoltage wait (lines 198 to 209).
\<close>

definition acquire :: "f_cpu \<Rightarrow> mppt_in \<Rightarrow> state \<Rightarrow> state option" where
  "acquire cpu i s = undervoltage_wait cpu (waits i) (readSensors cpu (adc0 i) s)"

definition mppt :: "f_cpu \<Rightarrow> mppt_in \<Rightarrow> state \<Rightarrow> state option" where
  "mppt cpu i s =
    (case acquire cpu i s of
       None \<Rightarrow> None
     | Some m \<Rightarrow>
         Some (write_output (print_timer i)
                (protection (controllers (mppt_timer i) (calc_timer i) m))))"

text \<open>\<^verbatim>\<open>loop\<close>: potentiometer, control cycle, supply voltage.\<close>

definition loop :: "f_cpu \<Rightarrow> loop_in \<Rightarrow> state \<Rightarrow> state option" where
  "loop cpu i s =
    (case mppt cpu (cycle i) (readPot (pot i) s) of
       None \<Rightarrow> None
     | Some s1 \<Rightarrow> Some (checkVcc (end_vcc i) s1))"

text \<open>Passes of \<^verbatim>\<open>loop\<close> one after the other.\<close>

fun run :: "f_cpu \<Rightarrow> loop_in list \<Rightarrow> state \<Rightarrow> state option" where
  "run cpu [] s = Some s"
| "run cpu (i # rest) s = (case loop cpu i s of None \<Rightarrow> None | Some s1 \<Rightarrow> run cpu rest s1)"

subsection \<open>Reading the trace and the wait\<close>

text \<open>The hardware actions a piece of the program added to the trace of \<open>s\<close>.\<close>

definition emitted :: "state \<Rightarrow> state \<Rightarrow> event list" where
  "emitted s s' = drop (length (trace s)) (trace s')"

text \<open>The duty-cycle values among some hardware actions, in order.\<close>

fun pwm_writes :: "event list \<Rightarrow> int list" where
  "pwm_writes [] = []"
| "pwm_writes (AnalogWrite v # es) = v # pwm_writes es"
| "pwm_writes (e # es) = pwm_writes es"

text \<open>
  The snapshots the rounds of the wait produce one after the other, the loop condition left
  aside: the state the wait starts in, then the state after each round.
\<close>

fun resamples :: "f_cpu \<Rightarrow> wait_in list \<Rightarrow> state \<Rightarrow> state list" where
  "resamples cpu [] s = [s]"
| "resamples cpu (w # ws) s = s # resamples cpu ws (wait_round cpu w s)"

text \<open>What one round of the wait does to the hardware.\<close>

definition wait_actions :: "event list" where
  "wait_actions = [AnalogWrite 0, LED_on, Delay 2000]"

subsection \<open>Concrete inputs for the examples\<close>

text \<open>
  Timers whose test fails or passes against a time stamp of zero, sensor samples (with a
  supply of 4.5 V: \<open>sample_cv\<close> is 13.5 V in and 4.5 V out, \<open>sample_over\<close> 15 V in and out,
  \<open>sample_mppt\<close> and \<open>sample_load\<close> 15 V in and 3.75 V out, \<open>sample_dark\<close> 9 V in and 0 V out,
  \<open>sample_zero\<close> 0 V in, \<open>sample_low\<close> 1.5 V in and out), inputs built from them,
  the initial state with the target stored as the binary32 number 4471669 / 2 ^ 20, and
  snapshots of it: 3.5 A at 3 V, 3.5 A at 5 V, and \<open>snapshot_edge\<close> with the output
  voltage 2130977 / 2 ^ 19, the binary32 number the single-precision threshold equals.
\<close>

definition idle :: timer where
  "idle = \<lparr>t_test = 0, t_set = 0\<rparr>"

definition due :: timer where
  "due = \<lparr>t_test = 1000, t_set = 1001\<rparr>"

definition sample_cv :: adc where
  "sample_cv = \<lparr>vsense_in = 279, isense_out = 504, vsense_out = 184\<rparr>"

definition sample_over :: adc where
  "sample_over = \<lparr>vsense_in = 310, isense_out = 504, vsense_out = 0\<rparr>"

definition sample_mppt :: adc where
  "sample_mppt = \<lparr>vsense_in = 310, isense_out = 504, vsense_out = 230\<rparr>"

definition sample_dark :: adc where
  "sample_dark = \<lparr>vsense_in = 186, isense_out = 504, vsense_out = 184\<rparr>"

definition sample_zero :: adc where
  "sample_zero = \<lparr>vsense_in = 0, isense_out = 504, vsense_out = 0\<rparr>"

definition sample_low :: adc where
  "sample_low = \<lparr>vsense_in = 31, isense_out = 504, vsense_out = 0\<rparr>"

definition cycle_of :: "adc \<Rightarrow> wait_in list \<Rightarrow> timer \<Rightarrow> timer \<Rightarrow> mppt_in" where
  "cycle_of a ws tm tc = \<lparr>adc0 = a, waits = ws, mppt_timer = tm, calc_timer = tc, print_timer = idle\<rparr>"

definition vcc_idle :: vcc_in where
  "vcc_idle = \<lparr>vcc_timer = idle, vcc_mv = 4500\<rparr>"

definition state_pot66 :: state where
  "state_pot66 = initial_state\<lparr>targetOutputVoltage := 4471669 / 1048576\<rparr>"

definition snapshot_cc :: state where
  "snapshot_cc = state_pot66\<lparr>outputCurrent := 3.5, outputVoltage := 3\<rparr>"

definition snapshot_bp :: state where
  "snapshot_bp = state_pot66\<lparr>outputCurrent := 3.5, outputVoltage := 5\<rparr>"

definition snapshot_edge :: state where
  "snapshot_edge = state_pot66\<lparr>inputVoltage := 15, outputVoltage := 2130977 / 524288\<rparr>"

definition sample_load :: adc where
  "sample_load = \<lparr>vsense_in = 310, isense_out = 541, vsense_out = 230\<rparr>"

definition pass_cv :: loop_in where
  "pass_cv = \<lparr>pot = 0, cycle = cycle_of sample_cv [] idle idle, end_vcc = vcc_idle\<rparr>"

definition vcc_due :: vcc_in where
  "vcc_due = \<lparr>vcc_timer = due, vcc_mv = 5000\<rparr>"

definition wait_dark :: wait_in where
  "wait_dark = \<lparr>wait_vcc = vcc_due, wait_adc = sample_dark\<rparr>"

definition wait_cv :: wait_in where
  "wait_cv = \<lparr>wait_vcc = vcc_due, wait_adc = sample_cv\<rparr>"


definition wait_load :: wait_in where
  "wait_load = \<lparr>wait_vcc = vcc_idle, wait_adc = sample_load\<rparr>"

section \<open>Auxiliary facts\<close>

lemma binade_eq:
  "n \<le> N \<Longrightarrow> 2 ^ n \<le> a * 2 ^ 126 \<Longrightarrow> a * 2 ^ 126 < 2 ^ Suc n \<Longrightarrow> binade N a = n"
proof (induction N)
  case 0
  then show ?case by simp
next
  case (Suc N)
  show ?case
  proof (cases "n = Suc N")
    case True
    with Suc.prems show ?thesis by simp
  next
    case False
    with Suc.prems have le: "n \<le> N" by simp
    then have "(2::real) ^ Suc n \<le> 2 ^ Suc N"
      by (intro power_increasing) simp_all
    with Suc.prems(3) have "\<not> 2 ^ Suc N \<le> a * 2 ^ 126" by linarith
    with Suc.IH [OF le Suc.prems(2,3)] show ?thesis by simp
  qed
qed

lemma ulp32_eq:
  "n \<le> 253 \<Longrightarrow> 2 ^ n \<le> \<bar>x\<bar> * 2 ^ 126 \<Longrightarrow> \<bar>x\<bar> * 2 ^ 126 < 2 ^ Suc n \<Longrightarrow>
     ulp32 x = 2 ^ n / 2 ^ 149"
  by (simp add: ulp32_def binade_eq)

lemma fl32_fifth: "fl32 (1 / 5) = 13421773 / 67108864"
proof -
  have "ulp32 (1 / 5) = 2 ^ 123 / 2 ^ 149"
    by (rule ulp32_eq) simp_all
  then have u: "ulp32 (1 / 5) = 1 / 67108864"
    by simp
  show ?thesis
    unfolding fl32_def u by (simp add: round_even_def Let_def)
qed

lemma fl32_threshold: "fl32 (21 / 5 - 13421773 / 67108864) = 4"
proof -
  have "ulp32 (21 / 5 - 13421773 / 67108864) = 2 ^ 127 / 2 ^ 149"
    by (rule ulp32_eq) simp_all
  then have u: "ulp32 (21 / 5 - 13421773 / 67108864) = 1 / 4194304"
    by simp
  show ?thesis
    unfolding fl32_def u by (simp add: round_even_def Let_def)
qed

lemma fl32_edge: "fl32 (4471669 / 1048576 - 13421773 / 67108864) = 2130977 / 524288"
proof -
  have "ulp32 (4471669 / 1048576 - 13421773 / 67108864) = 2 ^ 128 / 2 ^ 149"
    by (rule ulp32_eq) simp_all
  then have u: "ulp32 (4471669 / 1048576 - 13421773 / 67108864) = 1 / 2097152"
    by simp
  show ?thesis
    unfolding fl32_def u by (simp add: round_even_def Let_def)
qed

lemma fl32_literal: "fl32 0.2 = 13421773 / 67108864"
  using fl32_fifth by simp

lemma cv_cond_initial_target:
  assumes "targetOutputVoltage s = 21 / 5"
  shows "cv_cond s \<longleftrightarrow> outputVoltage s > 4 \<and> outputCurrent s \<le> maxOutputCurrent s"
proof -
  have "fl32 (targetOutputVoltage s - fl32 0.2) = 4"
    unfolding assms fl32_literal by (rule fl32_threshold)
  then show ?thesis
    by (simp only: cv_cond_def)
qed

lemma cv_cond_edge_target:
  assumes "targetOutputVoltage s = 4471669 / 1048576"
  shows "cv_cond s \<longleftrightarrow>
    outputVoltage s > 2130977 / 524288 \<and> outputCurrent s \<le> maxOutputCurrent s"
proof -
  have "fl32 (targetOutputVoltage s - fl32 0.2) = 2130977 / 524288"
    unfolding assms fl32_literal by (rule fl32_edge)
  then show ?thesis
    by (simp only: cv_cond_def)
qed

lemma float_to_int_0: "float_to_int 0 = 0"
  by (simp add: float_to_int_def)

lemma readSensors_frame:
  "pwm (readSensors cpu a s) = pwm s"
  "controlMode (readSensors cpu a s) = controlMode s"
  "targetPanelVoltage (readSensors cpu a s) = targetPanelVoltage s"
  "trackingDownwards (readSensors cpu a s) = trackingDownwards s"
  "targetOutputVoltage (readSensors cpu a s) = targetOutputVoltage s"
  "trace (readSensors cpu a s) = trace s"
  by (simp_all add: readSensors_def averageA_def Let_def)

lemma checkVcc_frame:
  "pwm (checkVcc v s) = pwm s"
  "controlMode (checkVcc v s) = controlMode s"
  "targetPanelVoltage (checkVcc v s) = targetPanelVoltage s"
  "trackingDownwards (checkVcc v s) = trackingDownwards s"
  "targetOutputVoltage (checkVcc v s) = targetOutputVoltage s"
  "outputVoltage (checkVcc v s) = outputVoltage s"
  "trace (checkVcc v s) = trace s"
  by (simp_all add: checkVcc_def)

lemma wait_round_effect:
  "pwm (wait_round cpu w s) = 0"
  "controlMode (wait_round cpu w s) = controlMode s"
  "targetPanelVoltage (wait_round cpu w s) = targetPanelVoltage s"
  "trackingDownwards (wait_round cpu w s) = trackingDownwards s"
  "targetOutputVoltage (wait_round cpu w s) = targetOutputVoltage s"
  "trace (wait_round cpu w s) = trace s @ wait_actions"
  by (simp_all add: wait_round_def Let_def readSensors_frame checkVcc_frame analogWrite_def
      float_to_int_0 wait_actions_def)

lemma undervoltage_wait_resamples:
  "undervoltage_wait cpu ws s =
    (let rs = resamples cpu ws s; k = length (takeWhile undervoltage rs)
     in if k < length rs then Some (rs ! k) else None)"
  by (induction ws arbitrary: s) (simp_all add: Let_def)

lemma resamples_length: "length (resamples cpu ws s) = Suc (length ws)"
  by (induction ws arbitrary: s) simp_all

lemma resamples_nth:
  "k \<le> length ws \<Longrightarrow>
    controlMode (resamples cpu ws s ! k) = controlMode s \<and>
    targetPanelVoltage (resamples cpu ws s ! k) = targetPanelVoltage s \<and>
    trackingDownwards (resamples cpu ws s ! k) = trackingDownwards s \<and>
    targetOutputVoltage (resamples cpu ws s ! k) = targetOutputVoltage s \<and>
    (0 < k \<longrightarrow> pwm (resamples cpu ws s ! k) = 0) \<and>
    (k = 0 \<longrightarrow> pwm (resamples cpu ws s ! k) = pwm s) \<and>
    trace (resamples cpu ws s ! k) = trace s @ concat (replicate k wait_actions)"
proof (induction ws arbitrary: s k)
  case Nil
  then show ?case by simp
next
  case (Cons w ws)
  show ?case
  proof (cases k)
    case 0
    then show ?thesis by simp
  next
    case (Suc j)
    with Cons.prems have "j \<le> length ws" by simp
    from Cons.IH [OF this, of "wait_round cpu w s"] Suc show ?thesis
      by (cases j) (simp_all add: wait_round_effect)
  qed
qed

lemma modes_distinct:
  "CV \<noteq> CC" "CV \<noteq> BP" "CV \<noteq> MPPT" "CC \<noteq> BP" "CC \<noteq> MPPT" "BP \<noteq> MPPT"
  "CC \<noteq> CV" "BP \<noteq> CV" "MPPT \<noteq> CV" "BP \<noteq> CC" "MPPT \<noteq> CC" "MPPT \<noteq> BP"
  by (simp_all add: CV_def CC_def BP_def MPPT_def)

lemma direction_subloop_frame:
  "inputVoltage (direction_subloop now s) = inputVoltage s"
  "outputVoltage (direction_subloop now s) = outputVoltage s"
  "outputCurrent (direction_subloop now s) = outputCurrent s"
  "outputPower (direction_subloop now s) = outputPower s"
  "targetOutputVoltage (direction_subloop now s) = targetOutputVoltage s"
  "maxOutputCurrent (direction_subloop now s) = maxOutputCurrent s"
  "controlMode (direction_subloop now s) = controlMode s"
  "pwm (direction_subloop now s) = pwm s"
  "lastCalc (direction_subloop now s) = lastCalc s"
  "trace (direction_subloop now s) = trace s"
  by (simp_all add: direction_subloop_def step_target_def Let_def)

lemma controllers_frame:
  "inputVoltage (controllers tm tc s) = inputVoltage s"
  "outputVoltage (controllers tm tc s) = outputVoltage s"
  "outputCurrent (controllers tm tc s) = outputCurrent s"
  "outputPower (controllers tm tc s) = outputPower s"
  "targetOutputVoltage (controllers tm tc s) = targetOutputVoltage s"
  "maxOutputCurrent (controllers tm tc s) = maxOutputCurrent s"
  "trace (controllers tm tc s) = trace s"
  by (simp_all add: controllers_def cv_branch_def cc_branch_def bp_branch_def mppt_branch_def
      Let_def direction_subloop_frame)

lemma controllers_mode:
  "controlMode (controllers tm tc s) =
    (if cv_cond s then CV else if cc_cond s then CC else if bp_cond s then BP else MPPT)"
  by (simp add: controllers_def cv_branch_def cc_branch_def bp_branch_def mppt_branch_def
      Let_def direction_subloop_frame)

lemma controllers_pwm:
  "pwm (controllers tm tc s) =
    (if cv_cond s
     then pwm s + (targetOutputVoltage s - outputVoltage s)
            - (if inputVoltage s < minPanelVoltage s then minPanelVoltage s - inputVoltage s
               else 0)
     else if cc_cond s then pwm s - (outputCurrent s - maxOutputCurrent s)
     else if bp_cond s then pwm s - 1
     else if 50 \<le> t_test tc - lastCalc s
     then pwm s - (targetPanelVoltage (controllers tm tc s) - inputVoltage s)
     else pwm s)"
  by (simp add: controllers_def cv_branch_def cc_branch_def bp_branch_def mppt_branch_def
      Let_def direction_subloop_frame)

lemma protection_frame:
  "inputVoltage (protection s) = inputVoltage s"
  "outputVoltage (protection s) = outputVoltage s"
  "outputCurrent (protection s) = outputCurrent s"
  "outputPower (protection s) = outputPower s"
  "targetOutputVoltage (protection s) = targetOutputVoltage s"
  "maxOutputCurrent (protection s) = maxOutputCurrent s"
  "controlMode (protection s) = controlMode s"
  by (simp_all add: protection_def lockout_def analogWrite_def Let_def)

lemma protection_effect:
  "pwm (protection s) = (if outputVoltage s > targetOutputVoltage s + 1.0 then 0 else pwm s)"
  "trace (protection s) =
    (if outputVoltage s > targetOutputVoltage s + 1.0 then trace s @ [AnalogWrite 0]
     else trace s)"
  by (simp_all add: protection_def lockout_def analogWrite_def Let_def float_to_int_0)

lemma write_output_frame:
  "inputVoltage (write_output tp s) = inputVoltage s"
  "outputVoltage (write_output tp s) = outputVoltage s"
  "outputCurrent (write_output tp s) = outputCurrent s"
  "outputPower (write_output tp s) = outputPower s"
  "targetOutputVoltage (write_output tp s) = targetOutputVoltage s"
  "maxOutputCurrent (write_output tp s) = maxOutputCurrent s"
  "controlMode (write_output tp s) = controlMode s"
  by (simp_all add: write_output_def serialPrint_def analogWrite_def Let_def)

lemma write_output_effect:
  "pwm (write_output tp s) = constrain (pwm s) 0 150"
  "trace (write_output tp s) = trace s @ [AnalogWrite (float_to_int (constrain (pwm s) 0 150))]"
  by (simp_all add: write_output_def serialPrint_def analogWrite_def Let_def)

lemma constrain_range: "0 \<le> constrain x 0 150 \<and> constrain x 0 150 \<le> 150"
  by (simp add: constrain_def)

lemma float_to_int_range: "0 \<le> x \<Longrightarrow> x \<le> 150 \<Longrightarrow> 0 \<le> float_to_int x \<and> float_to_int x \<le> 150"
  by (simp add: float_to_int_def floor_le_iff)

lemma pwm_writes_append: "pwm_writes (xs @ ys) = pwm_writes xs @ pwm_writes ys"
  by (induction xs rule: pwm_writes.induct) simp_all

lemma pwm_writes_wait_actions: "pwm_writes (concat (replicate k wait_actions)) = replicate k 0"
  by (induction k) (simp_all add: wait_actions_def)

lemma undervoltage_wait_Some:
  assumes "undervoltage_wait cpu ws s = Some m"
  shows "\<not> undervoltage m \<and>
    (\<exists>k\<le>length ws. m = resamples cpu ws s ! k \<and>
       (\<forall>j<k. undervoltage (resamples cpu ws s ! j)) \<and> (undervoltage s \<longrightarrow> 0 < k))"
proof -
  let ?rs = "resamples cpu ws s"
  let ?k = "length (takeWhile undervoltage ?rs)"
  from assms have less: "?k < length ?rs" and m: "m = ?rs ! ?k"
    by (simp_all add: undervoltage_wait_resamples Let_def split: if_splits)
  from less have clear: "\<not> undervoltage (?rs ! ?k)"
    by (rule nth_length_takeWhile)
  have before: "undervoltage (?rs ! j)" if "j < ?k" for j
  proof -
    from that have "takeWhile undervoltage ?rs ! j = ?rs ! j"
      by (rule takeWhile_nth)
    moreover from that
    have "takeWhile undervoltage ?rs ! j \<in> set (takeWhile undervoltage ?rs)"
      by simp
    ultimately show ?thesis
      by (auto dest: set_takeWhileD)
  qed
  have first: "?rs ! 0 = s"
    by (cases ws) simp_all
  have "undervoltage s \<longrightarrow> 0 < ?k"
  proof
    assume "undervoltage s"
    with clear first show "0 < ?k"
      by (cases "?k") auto
  qed
  moreover from less have "?k \<le> length ws"
    by (simp add: resamples_length)
  ultimately show ?thesis
    using m clear before by blast
qed

lemma undervoltage_wait_None:
  assumes "undervoltage_wait cpu ws s = None"
  shows "list_all undervoltage (resamples cpu ws s)"
proof -
  let ?rs = "resamples cpu ws s"
  from assms have "length (takeWhile undervoltage ?rs) = length ?rs"
    by (simp add: undervoltage_wait_resamples Let_def split: if_splits)
      (meson le_antisym length_takeWhile_le not_less)
  then have "takeWhile undervoltage ?rs = ?rs"
    by (metis append_eq_conv_conj length_append takeWhile_dropWhile_id add_cancel_right_right length_0_conv append_Nil2)
  then show ?thesis
    by (metis list_all_iff set_takeWhileD)
qed

lemma mppt_Some:
  assumes "mppt cpu i s = Some s'"
  shows "\<exists>m k. acquire cpu i s = Some m \<and> \<not> undervoltage m \<and> k \<le> length (waits i) \<and>
     trace m = trace s @ concat (replicate k wait_actions) \<and>
     (0 < k \<longrightarrow> pwm m = 0) \<and> (k = 0 \<longrightarrow> pwm m = pwm s) \<and>
     s' = write_output (print_timer i) (protection (controllers (mppt_timer i) (calc_timer i) m))"
proof -
  from assms obtain m where m: "acquire cpu i s = Some m"
    and s': "s' = write_output (print_timer i)
                   (protection (controllers (mppt_timer i) (calc_timer i) m))"
    by (auto simp: mppt_def split: option.splits)
  let ?s0 = "readSensors cpu (adc0 i) s"
  from m have "undervoltage_wait cpu (waits i) ?s0 = Some m"
    by (simp add: acquire_def)
  from undervoltage_wait_Some [OF this]
  obtain k where clear: "\<not> undervoltage m" and k: "k \<le> length (waits i)"
    and mk: "m = resamples cpu (waits i) ?s0 ! k"
    by blast
  from resamples_nth [OF k, of cpu ?s0] mk
  have "trace m = trace s @ concat (replicate k wait_actions)"
    and "0 < k \<longrightarrow> pwm m = 0" and "k = 0 \<longrightarrow> pwm m = pwm s"
    by (simp_all add: readSensors_frame)
  with m s' clear k show ?thesis by blast
qed

lemma emitted_append: "trace s' = trace s @ es \<Longrightarrow> emitted s s' = es"
  by (simp add: emitted_def)

lemmas sensor_defs = readSensors_def averageA_def Let_def fdiv_def acs712Offset_def

lemmas cycle_defs = mppt_def acquire_def undervoltage_def controllers_def cv_cond_initial_target cc_cond_def
  bp_cond_def cv_branch_def cc_branch_def bp_branch_def mppt_branch_def direction_subloop_def
  step_target_def
  protection_def lockout_def write_output_def serialPrint_def analogWrite_def constrain_def
  float_to_int_def wait_round_def checkVcc_def

lemmas input_defs = initial_state_def cycle_of_def idle_def due_def vcc_idle_def
  sample_cv_def sample_over_def sample_mppt_def sample_dark_def sample_zero_def sample_low_def

lemma cond_frame:
  "cv_cond (write_output tp (protection (controllers tm tc m))) = cv_cond m"
  "cc_cond (write_output tp (protection (controllers tm tc m))) = cc_cond m"
  "bp_cond (write_output tp (protection (controllers tm tc m))) = bp_cond m"
  by (simp_all add: cv_cond_def cc_cond_def bp_cond_def write_output_frame protection_frame
      controllers_frame)

lemma mppt_pwm_range:
  assumes "mppt cpu i s = Some s'"
  shows "0 \<le> pwm s' \<and> pwm s' \<le> 150"
proof -
  from mppt_Some [OF assms] obtain m
    where "s' = write_output (print_timer i)
                  (protection (controllers (mppt_timer i) (calc_timer i) m))"
    by blast
  then show ?thesis
    by (simp add: write_output_effect constrain_range)
qed

lemma loop_Some:
  assumes "loop cpu i s = Some s'"
  shows "\<exists>s1. mppt cpu (cycle i) (readPot (pot i) s) = Some s1 \<and> s' = checkVcc (end_vcc i) s1"
  using assms by (auto simp: loop_def split: option.splits)

lemma loop_pwm_range:
  assumes "loop cpu i s = Some s'"
  shows "0 \<le> pwm s' \<and> pwm s' \<le> 150"
proof -
  from loop_Some [OF assms] obtain s1
    where "mppt cpu (cycle i) (readPot (pot i) s) = Some s1" and "s' = checkVcc (end_vcc i) s1"
    by blast
  then show ?thesis
    using mppt_pwm_range [of cpu "cycle i" "readPot (pot i) s" s1] by (simp add: checkVcc_frame)
qed

lemma run_pwm_range:
  assumes "run cpu ins s = Some s'" and "0 \<le> pwm s \<and> pwm s \<le> 150"
  shows "0 \<le> pwm s' \<and> pwm s' \<le> 150"
  using assms
proof (induction ins arbitrary: s)
  case Nil
  then show ?case by simp
next
  case (Cons i ins)
  from Cons.prems(1) obtain s1 where l: "loop cpu i s = Some s1" and r: "run cpu ins s1 = Some s'"
    by (auto split: option.splits)
  from Cons.IH [OF r loop_pwm_range [OF l]] show ?case .
qed

lemma controllers_runs_direction_subloop:
  assumes "\<not> cv_cond s" "\<not> cc_cond s" "\<not> bp_cond s" "1000 \<le> t_test tm - lastMppt s"
  shows "targetPanelVoltage (controllers tm tc s)
           = targetPanelVoltage (direction_subloop (t_set tm) (s\<lparr>controlMode := MPPT\<rparr>)) \<and>
         trackingDownwards (controllers tm tc s)
           = trackingDownwards (direction_subloop (t_set tm) (s\<lparr>controlMode := MPPT\<rparr>))"
  using assms by (simp add: controllers_def mppt_branch_def Let_def)

lemma wait_round_anatomy:
  "wait_round cpu w x =
     readSensors cpu (wait_adc w)
       (checkVcc (wait_vcc w) (x\<lparr>pwm := 0, trace := trace x @ wait_actions\<rparr>))"
  by (simp add: wait_round_def Let_def analogWrite_def float_to_int_0 wait_actions_def)

lemma wait_round_vcc:
  "1000 \<le> t_test (vcc_timer (wait_vcc w)) - lastVcc x \<Longrightarrow>
     vcc (wait_round cpu w x) = real_of_int (vcc_mv (wait_vcc w)) / 1000"
  by (simp add: wait_round_def Let_def analogWrite_def checkVcc_def readSensors_def averageA_def)

lemma readSensors_voltages:
  "inputVoltage (readSensors cpu a s) = real_of_int (vsense_in a) * vcc s / 93"
  "outputVoltage (readSensors cpu a s) =
     real_of_int (vsense_in a) * vcc s / 93 - real_of_int (vsense_out a) * vcc s / 92"
  "vcc (readSensors cpu a s) = vcc s"
  "lastVcc (readSensors cpu a s) = lastVcc s"
  by (simp_all add: readSensors_def averageA_def Let_def)

lemma wait_round_voltages:
  "inputVoltage (wait_round cpu w s) =
     real_of_int (vsense_in (wait_adc w)) * vcc (checkVcc (wait_vcc w) s) / 93"
  "outputVoltage (wait_round cpu w s) =
     real_of_int (vsense_in (wait_adc w)) * vcc (checkVcc (wait_vcc w) s) / 93
       - real_of_int (vsense_out (wait_adc w)) * vcc (checkVcc (wait_vcc w) s) / 92"
  "vcc (wait_round cpu w s) = vcc (checkVcc (wait_vcc w) s)"
  "lastVcc (wait_round cpu w s) = lastVcc (checkVcc (wait_vcc w) s)"
  by (simp_all add: wait_round_def Let_def analogWrite_def readSensors_voltages checkVcc_def)

lemma dark_rounds:
  "undervoltage (readSensors F_CPU_8000000 sample_dark initial_state)"
  "undervoltage (wait_round F_CPU_8000000 wait_dark
      (readSensors F_CPU_8000000 sample_dark initial_state))"
  "\<not> undervoltage (wait_round F_CPU_8000000 wait_cv
      (wait_round F_CPU_8000000 wait_dark
        (readSensors F_CPU_8000000 sample_dark initial_state)))"
  by (simp_all add: undervoltage_def wait_round_voltages readSensors_voltages checkVcc_def
      vcc_due_def wait_dark_def wait_cv_def due_def sample_dark_def sample_cv_def
      initial_state_def)

lemma readPot_frame:
  "pwm (readPot p s) = pwm s"
  by (simp add: readPot_def)

lemma acquire_pwm:
  assumes "acquire cpu i s = Some m"
  shows "pwm m = 0 \<or> pwm m = pwm s"
proof -
  let ?s0 = "readSensors cpu (adc0 i) s"
  from assms have "undervoltage_wait cpu (waits i) ?s0 = Some m"
    by (simp add: acquire_def)
  from undervoltage_wait_Some [OF this]
  obtain k where k: "k \<le> length (waits i)" and mk: "m = resamples cpu (waits i) ?s0 ! k"
    by blast
  from resamples_nth [OF k, of cpu ?s0] mk show ?thesis
    by (cases k) (simp_all add: readSensors_frame)
qed

lemma charged_overvoltage:
  "pwm (controllers idle idle (readSensors F_CPU_8000000 sample_over (initial_state\<lparr>pwm := 100\<rparr>)))
     = 446 / 5"
  by (simp add: controllers_pwm cv_cond_initial_target readSensors_voltages readSensors_frame
      sample_over_def initial_state_def readSensors_def averageA_def Let_def acs712Offset_def)

lemma readSensors_power:
  "outputPower (readSensors cpu a s) = outputVoltage s * outputCurrent (readSensors cpu a s)"
  by (simp add: readSensors_def averageA_def Let_def)

lemma wait_round_power:
  "outputPower (wait_round cpu w x) = outputVoltage x * outputCurrent (wait_round cpu w x)"
  by (simp add: wait_round_anatomy readSensors_power checkVcc_frame)

lemma resamples_0: "resamples cpu ws s ! 0 = s"
  by (cases ws) simp_all

lemma resamples_Suc:
  "j < length ws \<Longrightarrow>
     resamples cpu ws s ! Suc j = wait_round cpu (ws ! j) (resamples cpu ws s ! j)"
proof (induction ws arbitrary: s j)
  case Nil
  then show ?case by simp
next
  case (Cons w ws)
  show ?case
  proof (cases j)
    case 0
    then show ?thesis by (simp add: resamples_0)
  next
    case (Suc j')
    with Cons.prems have "j' < length ws" by simp
    from Cons.IH [OF this, of "wait_round cpu w s"] Suc show ?thesis by simp
  qed
qed

lemma cycle_tail_frame:
  "vcc (write_output tp (protection (controllers tm tc m))) = vcc m"
  "raw (write_output tp (protection (controllers tm tc m))) = raw m"
  "lastVcc (write_output tp (protection (controllers tm tc m))) = lastVcc m"
  "outputVoltage (write_output tp (protection (controllers tm tc m))) = outputVoltage m"
  "outputCurrent (write_output tp (protection (controllers tm tc m))) = outputCurrent m"
  "outputPower (write_output tp (protection (controllers tm tc m))) = outputPower m"
  by (simp_all add: write_output_def serialPrint_def analogWrite_def protection_def lockout_def
      controllers_def cv_branch_def cc_branch_def bp_branch_def mppt_branch_def
      direction_subloop_def step_target_def Let_def)

lemma first_cycle_fields:
  "mppt F_CPU_16000000 (cycle_of sample_mppt [] idle idle) initial_state \<noteq> None"
  "outputVoltage (the (mppt F_CPU_16000000 (cycle_of sample_mppt [] idle idle) initial_state))
     = 15 / 4"
  "vcc (the (mppt F_CPU_16000000 (cycle_of sample_mppt [] idle idle) initial_state)) = 9 / 2"
  "raw (the (mppt F_CPU_16000000 (cycle_of sample_mppt [] idle idle) initial_state))
     = [0, 0, 0, 0]"
  "lastVcc (the (mppt F_CPU_16000000 (cycle_of sample_mppt [] idle idle) initial_state)) = 0"
proof -
  let ?m = "readSensors F_CPU_16000000 sample_mppt initial_state"
  have a: "acquire F_CPU_16000000 (cycle_of sample_mppt [] idle idle) initial_state = Some ?m"
    by (simp add: acquire_def undervoltage_def readSensors_voltages cycle_of_def sample_mppt_def
        initial_state_def)
  have f: "outputVoltage ?m = 15 / 4" "vcc ?m = 9 / 2" "raw ?m = [0, 0, 0, 0]" "lastVcc ?m = 0"
    by (simp_all add: sensor_defs input_defs)
  from a show "mppt F_CPU_16000000 (cycle_of sample_mppt [] idle idle) initial_state \<noteq> None"
    by (simp add: mppt_def)
  from a f show
    "outputVoltage (the (mppt F_CPU_16000000 (cycle_of sample_mppt [] idle idle) initial_state))
       = 15 / 4"
    "vcc (the (mppt F_CPU_16000000 (cycle_of sample_mppt [] idle idle) initial_state)) = 9 / 2"
    "raw (the (mppt F_CPU_16000000 (cycle_of sample_mppt [] idle idle) initial_state))
       = [0, 0, 0, 0]"
    "lastVcc (the (mppt F_CPU_16000000 (cycle_of sample_mppt [] idle idle) initial_state)) = 0"
    by (simp_all add: mppt_def cycle_tail_frame)
qed

lemma load_after_dark:
  assumes "vcc s = 9 / 2" and "raw s = [0, 0, 0, 0]" and "lastVcc s = 0"
  shows "undervoltage (readSensors F_CPU_16000000 sample_dark s)"
    and "\<not> undervoltage (wait_round F_CPU_16000000 wait_load
           (readSensors F_CPU_16000000 sample_dark s))"
    and "outputCurrent (wait_round F_CPU_16000000 wait_load
           (readSensors F_CPU_16000000 sample_dark s)) = 225 / 1024"
    and "outputPower (wait_round F_CPU_16000000 wait_load
           (readSensors F_CPU_16000000 sample_dark s)) = 0"
    and "outputVoltage (wait_round F_CPU_16000000 wait_load
           (readSensors F_CPU_16000000 sample_dark s)) = 15 / 4"
proof -
  let ?d = "readSensors F_CPU_16000000 sample_dark s"
  have d: "outputVoltage ?d = 0" "inputVoltage ?d = 9" "vcc ?d = 9 / 2" "lastVcc ?d = 0"
    using assms by (simp_all add: readSensors_voltages sample_dark_def)
  have r: "raw ?d = [0, 0, 0, 0]"
    using assms by (simp add: readSensors_def averageA_def Let_def sample_dark_def
        acs712Offset_def)
  from d show "undervoltage ?d"
    by (simp add: undervoltage_def)
  have c: "checkVcc (wait_vcc wait_load) x = x" if "lastVcc x = 0" for x
    using that by (simp add: checkVcc_def wait_load_def vcc_idle_def idle_def)
  let ?x = "?d\<lparr>pwm := 0, trace := trace ?d @ wait_actions\<rparr>"
  have w: "wait_round F_CPU_16000000 wait_load ?d = readSensors F_CPU_16000000 sample_load ?x"
    using c [of ?x] d by (simp add: wait_round_anatomy wait_load_def)
  have x: "vcc ?x = 9 / 2" "raw ?x = [0, 0, 0, 0]" "outputVoltage ?x = 0"
    using d r by simp_all
  show "\<not> undervoltage (wait_round F_CPU_16000000 wait_load ?d)"
    unfolding w using x by (simp add: undervoltage_def readSensors_voltages sample_load_def)
  show "outputCurrent (wait_round F_CPU_16000000 wait_load ?d) = 225 / 1024"
    unfolding w using x
    by (simp add: readSensors_def averageA_def Let_def sample_load_def acs712Offset_def)
  then show "outputPower (wait_round F_CPU_16000000 wait_load ?d) = 0"
    using d by (simp add: wait_round_power)
  show "outputVoltage (wait_round F_CPU_16000000 wait_load ?d) = 15 / 4"
    unfolding w using x by (simp add: readSensors_voltages sample_load_def)
qed

section \<open>The claims\<close>

text \<open>
  Claim C1 says that exactly one mode's \<open>pwm\<close> arithmetic executes per cycle, and gives
  the CV condition as \<open>outputVoltage > targetOutputVoltage - 0.2\<close>. With the target
  stored as the binary32 number 4471669 / 2 ^ 20, 15 V in and 3.75 V out select MPPT, and
  with neither timer due the controllers change \<open>controlMode\<close> and nothing else: no
  \<open>pwm\<close> arithmetic has run. And on the
  stored snapshot \<open>snapshot_edge\<close> the output voltage exceeds the exact difference, yet not
  the single-precision one the program computes, and the mode is MPPT.
\<close>

theorem mode_arbitration_counterexample:
  "\<not> cv_cond (readSensors F_CPU_8000000 sample_mppt state_pot66) \<and>
   \<not> cc_cond (readSensors F_CPU_8000000 sample_mppt state_pot66) \<and>
   \<not> bp_cond (readSensors F_CPU_8000000 sample_mppt state_pot66) \<and>
   controllers idle idle (readSensors F_CPU_8000000 sample_mppt state_pot66)
     = (readSensors F_CPU_8000000 sample_mppt state_pot66)\<lparr>controlMode := MPPT\<rparr> \<and>
   outputVoltage snapshot_edge > targetOutputVoltage snapshot_edge - 0.2 \<and>
   outputCurrent snapshot_edge \<le> maxOutputCurrent snapshot_edge \<and>
   controlMode (controllers idle idle snapshot_edge) = MPPT"
proof -
  let ?m = "readSensors F_CPU_8000000 sample_mppt state_pot66"
  have m: "\<not> cv_cond ?m" "\<not> cc_cond ?m" "\<not> bp_cond ?m"
    by (simp_all add: cv_cond_edge_target cc_cond_def bp_cond_def sensor_defs input_defs state_pot66_def)
  have t: "\<not> 1000 \<le> t_test idle - lastMppt ?m" "\<not> 50 \<le> t_test idle - lastCalc ?m"
    by (simp_all add: sensor_defs input_defs state_pot66_def)
  have c: "controllers idle idle ?m = ?m\<lparr>controlMode := MPPT\<rparr>"
    using m t by (simp add: controllers_def mppt_branch_def Let_def)
  have e: "\<not> cv_cond snapshot_edge" "\<not> cc_cond snapshot_edge" "\<not> bp_cond snapshot_edge"
    by (simp_all add: cv_cond_edge_target cc_cond_def bp_cond_def snapshot_edge_def
        state_pot66_def initial_state_def)
  have r: "outputVoltage snapshot_edge > targetOutputVoltage snapshot_edge - 0.2"
    "outputCurrent snapshot_edge \<le> maxOutputCurrent snapshot_edge"
    by (simp_all add: snapshot_edge_def state_pot66_def initial_state_def)
  from e have "controlMode (controllers idle idle snapshot_edge) = MPPT"
    by (simp add: controllers_mode)
  with m c r show ?thesis by simp
qed

text \<open>
  Claim C1, amended. On every snapshot \<open>m\<close> the arbitration tests the conditions of the
  four modes in the fixed order CV, CC, BP, MPPT, and \<open>controlMode\<close> becomes the mode of
  the first condition that holds: CV when \<open>outputVoltage\<close> exceeds
  \<open>targetOutputVoltage - 0.2\<close>, the difference as the program computes it in single
  precision, and \<open>outputCurrent \<le> maxOutputCurrent\<close>; else CC when
  \<open>outputCurrent > maxOutputCurrent\<close> and \<open>outputVoltage < targetOutputVoltage\<close>; else BP
  when \<open>outputCurrent > maxOutputCurrent\<close> and \<open>outputVoltage > targetOutputVoltage\<close>;
  else MPPT. Only the arithmetic of the chosen mode changes \<open>pwm\<close>; in MPPT mode its
  update runs only when the 50 ms timer is due, and otherwise the controllers leave
  \<open>pwm\<close> as it was. At the end of a control cycle \<open>controlMode\<close> is the mode the
  controllers chose on the snapshot of that cycle, and the conditions read on the final state
  as they did on the snapshot.
\<close>

theorem mode_arbitration_priority:
  "(controlMode (controllers tm tc m) = CV \<longleftrightarrow> cv_cond m) \<and>
   (controlMode (controllers tm tc m) = CC \<longleftrightarrow> \<not> cv_cond m \<and> cc_cond m) \<and>
   (controlMode (controllers tm tc m) = BP \<longleftrightarrow> \<not> cv_cond m \<and> \<not> cc_cond m \<and> bp_cond m) \<and>
   (controlMode (controllers tm tc m) = MPPT \<longleftrightarrow>
      \<not> cv_cond m \<and> \<not> cc_cond m \<and> \<not> bp_cond m) \<and>
   pwm (controllers tm tc m) =
     (if cv_cond m
      then pwm m + (targetOutputVoltage m - outputVoltage m)
             - (if inputVoltage m < minPanelVoltage m then minPanelVoltage m - inputVoltage m
                else 0)
      else if cc_cond m then pwm m - (outputCurrent m - maxOutputCurrent m)
      else if bp_cond m then pwm m - 1
      else if 50 \<le> t_test tc - lastCalc m
      then pwm m - (targetPanelVoltage (controllers tm tc m) - inputVoltage m)
      else pwm m) \<and>
   (mppt cpu i s = Some s' \<longrightarrow>
      (controlMode s' = CV \<longleftrightarrow> cv_cond s') \<and>
      (controlMode s' = CC \<longleftrightarrow> \<not> cv_cond s' \<and> cc_cond s') \<and>
      (controlMode s' = BP \<longleftrightarrow> \<not> cv_cond s' \<and> \<not> cc_cond s' \<and> bp_cond s') \<and>
      (controlMode s' = MPPT \<longleftrightarrow> \<not> cv_cond s' \<and> \<not> cc_cond s' \<and> \<not> bp_cond s') \<and>
      (\<exists>n. acquire cpu i s = Some n \<and>
         controlMode s' = controlMode (controllers (mppt_timer i) (calc_timer i) n) \<and>
         (cv_cond s' \<longleftrightarrow> cv_cond n) \<and> (cc_cond s' \<longleftrightarrow> cc_cond n) \<and>
         (bp_cond s' \<longleftrightarrow> bp_cond n)))"
proof -
  have mode: "controlMode (controllers tm tc m) =
      (if cv_cond m then CV else if cc_cond m then CC else if bp_cond m then BP else MPPT)"
    for tm tc m
    by (rule controllers_mode)
  have cv: "controlMode (controllers tm tc m) = CV \<longleftrightarrow> cv_cond m" for tm tc m
    unfolding mode by (simp add: modes_distinct)
  have cc: "controlMode (controllers tm tc m) = CC \<longleftrightarrow> \<not> cv_cond m \<and> cc_cond m" for tm tc m
    unfolding mode by (simp add: modes_distinct)
  have bp: "controlMode (controllers tm tc m) = BP \<longleftrightarrow>
      \<not> cv_cond m \<and> \<not> cc_cond m \<and> bp_cond m" for tm tc m
    unfolding mode by (simp add: modes_distinct)
  have mp: "controlMode (controllers tm tc m) = MPPT \<longleftrightarrow>
      \<not> cv_cond m \<and> \<not> cc_cond m \<and> \<not> bp_cond m" for tm tc m
    unfolding mode by (simp add: modes_distinct)
  have cyc: "(controlMode s' = CV \<longleftrightarrow> cv_cond s') \<and>
      (controlMode s' = CC \<longleftrightarrow> \<not> cv_cond s' \<and> cc_cond s') \<and>
      (controlMode s' = BP \<longleftrightarrow> \<not> cv_cond s' \<and> \<not> cc_cond s' \<and> bp_cond s') \<and>
      (controlMode s' = MPPT \<longleftrightarrow> \<not> cv_cond s' \<and> \<not> cc_cond s' \<and> \<not> bp_cond s') \<and>
      (\<exists>n. acquire cpu i s = Some n \<and>
         controlMode s' = controlMode (controllers (mppt_timer i) (calc_timer i) n) \<and>
         (cv_cond s' \<longleftrightarrow> cv_cond n) \<and> (cc_cond s' \<longleftrightarrow> cc_cond n) \<and>
         (bp_cond s' \<longleftrightarrow> bp_cond n))"
    if "mppt cpu i s = Some s'"
  proof -
    from mppt_Some [OF that] obtain n where n: "acquire cpu i s = Some n"
      and s': "s' = write_output (print_timer i)
                     (protection (controllers (mppt_timer i) (calc_timer i) n))"
      by blast
    let ?c = "controllers (mppt_timer i) (calc_timer i) n"
    have k: "controlMode s' = controlMode ?c"
      by (simp add: s' write_output_frame protection_frame)
    have f: "cv_cond s' = cv_cond n" "cc_cond s' = cc_cond n" "bp_cond s' = bp_cond n"
      by (simp_all add: s' cond_frame)
    from n k f cv [of "mppt_timer i" "calc_timer i" n] cc [of "mppt_timer i" "calc_timer i" n]
      bp [of "mppt_timer i" "calc_timer i" n] mp [of "mppt_timer i" "calc_timer i" n]
    show ?thesis by simp
  qed
  from cv [of tm tc m] cc [of tm tc m] bp [of tm tc m] mp [of tm tc m]
    controllers_pwm [of tm tc m] cyc
  show ?thesis by blast
qed

text \<open>
  With the target stored as 4471669 / 2 ^ 20, 13.5 V in and 4.5 V out give a cycle in CV mode
  that moves \<open>pwm\<close> by the target less 4.5; 3.5 A at 3 V selects CC, 3.5 A at 5 V selects BP, and
  \<open>snapshot_edge\<close> with the 50 ms timer due selects MPPT and moves \<open>pwm\<close> by
  \<open>15 - 14\<close>.
\<close>

theorem mode_arbitration_priority_witness:
  "mppt F_CPU_8000000 (cycle_of sample_cv [] idle idle) state_pot66 \<noteq> None \<and>
   cv_cond (the (mppt F_CPU_8000000 (cycle_of sample_cv [] idle idle) state_pot66)) \<and>
   controlMode (the (mppt F_CPU_8000000 (cycle_of sample_cv [] idle idle) state_pot66)) = CV \<and>
   pwm (controllers idle idle (readSensors F_CPU_8000000 sample_cv state_pot66)) = - (246923 / 1048576) \<and>
   \<not> cv_cond snapshot_cc \<and> cc_cond snapshot_cc \<and>
   controlMode (controllers idle idle snapshot_cc) = CC \<and>
   pwm (controllers idle idle snapshot_cc) = - (1 / 2) \<and>
   \<not> cv_cond snapshot_bp \<and> \<not> cc_cond snapshot_bp \<and> bp_cond snapshot_bp \<and>
   controlMode (controllers idle idle snapshot_bp) = BP \<and>
   pwm (controllers idle idle snapshot_bp) = - 1 \<and>
   \<not> cv_cond snapshot_edge \<and> \<not> cc_cond snapshot_edge \<and> \<not> bp_cond snapshot_edge \<and>
   controlMode (controllers idle due snapshot_edge) = MPPT \<and>
   pwm (controllers idle due snapshot_edge) = 1"
proof -
  let ?i = "cycle_of sample_cv [] idle idle"
  let ?m = "readSensors F_CPU_8000000 sample_cv state_pot66"
  let ?s' = "the (mppt F_CPU_8000000 ?i state_pot66)"
  have a: "acquire F_CPU_8000000 ?i state_pot66 = Some ?m"
    by (simp add: acquire_def undervoltage_def sensor_defs input_defs state_pot66_def)
  then have ne: "mppt F_CPU_8000000 ?i state_pot66 \<noteq> None"
    by (simp add: mppt_def)
  then have r: "mppt F_CPU_8000000 ?i state_pot66 = Some ?s'"
    by auto
  have c: "cv_cond ?m"
    by (simp add: cv_cond_edge_target sensor_defs input_defs state_pot66_def)
  have "cv_cond ?s' = cv_cond ?m"
    using a by (simp add: mppt_def cond_frame)
  with c have c': "cv_cond ?s'" by simp
  have v: "pwm ?m = 0" "targetOutputVoltage ?m = 4471669 / 1048576" "outputVoltage ?m = 9 / 2"
    "inputVoltage ?m = 27 / 2" "minPanelVoltage ?m = 12"
    by (simp_all add: sensor_defs input_defs state_pot66_def)
  from mode_arbitration_priority [of idle idle ?m F_CPU_8000000 ?i state_pot66 ?s'] r c c' v
  have first: "controlMode ?s' = CV \<and> pwm (controllers idle idle ?m) = - (246923 / 1048576)"
    by simp
  have cc: "\<not> cv_cond snapshot_cc" "cc_cond snapshot_cc"
    by (simp_all add: cv_cond_edge_target cc_cond_def snapshot_cc_def state_pot66_def initial_state_def)
  have ccv: "pwm snapshot_cc = 0" "outputCurrent snapshot_cc = 7 / 2"
    "maxOutputCurrent snapshot_cc = 3"
    by (simp_all add: snapshot_cc_def state_pot66_def initial_state_def)
  from mode_arbitration_priority [of idle idle snapshot_cc F_CPU_8000000 ?i state_pot66 ?s']
    cc ccv
  have second: "controlMode (controllers idle idle snapshot_cc) = CC \<and>
      pwm (controllers idle idle snapshot_cc) = - (1 / 2)"
    by simp
  have bp: "\<not> cv_cond snapshot_bp" "\<not> cc_cond snapshot_bp" "bp_cond snapshot_bp"
    by (simp_all add: cv_cond_edge_target cc_cond_def bp_cond_def snapshot_bp_def
        state_pot66_def initial_state_def)
  have bpv: "pwm snapshot_bp = 0"
    by (simp add: snapshot_bp_def state_pot66_def initial_state_def)
  from mode_arbitration_priority [of idle idle snapshot_bp F_CPU_8000000 ?i state_pot66 ?s']
    bp bpv
  have third: "controlMode (controllers idle idle snapshot_bp) = BP \<and>
      pwm (controllers idle idle snapshot_bp) = - 1"
    by simp
  have e: "\<not> cv_cond snapshot_edge" "\<not> cc_cond snapshot_edge" "\<not> bp_cond snapshot_edge"
    by (simp_all add: cv_cond_edge_target cc_cond_def bp_cond_def snapshot_edge_def
        state_pot66_def initial_state_def)
  have ev: "pwm snapshot_edge = 0" "inputVoltage snapshot_edge = 15"
    "50 \<le> t_test due - lastCalc snapshot_edge"
    "\<not> 1000 \<le> t_test idle - lastMppt snapshot_edge"
    "targetPanelVoltage snapshot_edge = 14"
    by (simp_all add: snapshot_edge_def state_pot66_def initial_state_def due_def idle_def)
  have "targetPanelVoltage (controllers idle due snapshot_edge) = 14"
    using e ev by (simp add: controllers_def mppt_branch_def Let_def)
  with mode_arbitration_priority
         [of idle due snapshot_edge F_CPU_8000000 ?i state_pot66 ?s'] e ev
  have fourth: "controlMode (controllers idle due snapshot_edge) = MPPT \<and>
      pwm (controllers idle due snapshot_edge) = 1"
    by simp
  from ne c' first cc second bp third e fourth show ?thesis by simp
qed

text \<open>
  Claim C2. When the snapshot of a cycle has \<open>outputVoltage > targetOutputVoltage + 1.0\<close>,
  every duty-cycle value the cycle writes to the PWM output is 0, the last write included,
  whatever mode the arbitration chose and whatever its branch did to \<open>pwm\<close>.
\<close>

theorem overvoltage_forces_zero_duty:
  assumes "mppt cpu i s = Some s'"
    and "outputVoltage s' > targetOutputVoltage s' + 1.0"
  shows "set (pwm_writes (emitted s s')) = {0} \<and> last (trace s') = AnalogWrite 0"
proof -
  from mppt_Some [OF assms(1)] obtain m k
    where tm: "trace m = trace s @ concat (replicate k wait_actions)"
      and s': "s' = write_output (print_timer i)
                     (protection (controllers (mppt_timer i) (calc_timer i) m))"
    by blast
  let ?c = "controllers (mppt_timer i) (calc_timer i) m"
  from assms(2) have over: "outputVoltage ?c > targetOutputVoltage ?c + 1.0"
    by (simp add: s' write_output_frame protection_frame)
  then have p0: "pwm (protection ?c) = 0"
    by (simp add: protection_effect)
  have "trace s' = trace s @ (concat (replicate k wait_actions) @
      [AnalogWrite 0, AnalogWrite 0])"
    using over by (simp add: s' write_output_effect protection_effect controllers_frame tm
        constrain_def float_to_int_0)
  then have e: "emitted s s' = concat (replicate k wait_actions) @ [AnalogWrite 0, AnalogWrite 0]"
    by (rule emitted_append)
  have "set (pwm_writes (emitted s s')) = {0}"
    by (auto simp: e pwm_writes_append pwm_writes_wait_actions)
  moreover have "last (trace s') = AnalogWrite 0"
    by (simp add: s' write_output_effect p0 constrain_def float_to_int_0)
  ultimately show ?thesis by simp
qed

text \<open>
  From the initial state, 15 V at the output against a target of 4.2 V.
\<close>

theorem overvoltage_forces_zero_duty_witness:
  "mppt F_CPU_8000000 (cycle_of sample_over [] idle idle) initial_state \<noteq> None \<and>
   outputVoltage (the (mppt F_CPU_8000000 (cycle_of sample_over [] idle idle) initial_state))
     > targetOutputVoltage
         (the (mppt F_CPU_8000000 (cycle_of sample_over [] idle idle) initial_state)) + 1.0 \<and>
   set (pwm_writes (emitted initial_state
      (the (mppt F_CPU_8000000 (cycle_of sample_over [] idle idle) initial_state)))) = {0} \<and>
   last (trace (the (mppt F_CPU_8000000 (cycle_of sample_over [] idle idle) initial_state)))
     = AnalogWrite 0"
proof -
  let ?i = "cycle_of sample_over [] idle idle"
  let ?m = "readSensors F_CPU_8000000 sample_over initial_state"
  have a: "acquire F_CPU_8000000 ?i initial_state = Some ?m"
    by (simp add: acquire_def undervoltage_def sensor_defs input_defs)
  then have ne: "mppt F_CPU_8000000 ?i initial_state \<noteq> None"
    by (simp add: mppt_def)
  then have r: "mppt F_CPU_8000000 ?i initial_state = Some (the (mppt F_CPU_8000000 ?i initial_state))"
    by auto
  have o: "outputVoltage ?m > targetOutputVoltage ?m + 1.0"
    by (simp add: sensor_defs input_defs)
  have o': "outputVoltage (the (mppt F_CPU_8000000 ?i initial_state))
      > targetOutputVoltage (the (mppt F_CPU_8000000 ?i initial_state)) + 1.0"
    using a o by (simp add: mppt_def write_output_frame protection_frame controllers_frame)
  from overvoltage_forces_zero_duty [OF r o'] ne o' show ?thesis
    by simp
qed

text \<open>
  Claim C3. Every duty-cycle value a control cycle writes to the PWM output lies between 0 and
  150; the value written last is the clamped \<open>pwm\<close>, converted to an integer.
\<close>

theorem duty_cycle_within_limits:
  assumes "mppt cpu i s = Some s'"
  shows "set (pwm_writes (emitted s s')) \<subseteq> {0..150} \<and>
    last (trace s') = AnalogWrite (float_to_int (pwm s')) \<and>
    0 \<le> float_to_int (pwm s') \<and> float_to_int (pwm s') \<le> 150"
proof -
  from mppt_Some [OF assms] obtain m k
    where tm: "trace m = trace s @ concat (replicate k wait_actions)"
      and s': "s' = write_output (print_timer i)
                     (protection (controllers (mppt_timer i) (calc_timer i) m))"
    by blast
  let ?c = "controllers (mppt_timer i) (calc_timer i) m"
  let ?d = "float_to_int (constrain (pwm (protection ?c)) 0 150)"
  have d: "0 \<le> ?d \<and> ?d \<le> 150"
    using constrain_range [of "pwm (protection ?c)"] by (simp add: float_to_int_range)
  have "trace s' = trace s @ (concat (replicate k wait_actions) @
      (if outputVoltage ?c > targetOutputVoltage ?c + 1.0 then [AnalogWrite 0] else []) @
      [AnalogWrite ?d])"
    by (simp add: s' write_output_effect protection_effect controllers_frame tm)
  then have "emitted s s' = concat (replicate k wait_actions) @
      (if outputVoltage ?c > targetOutputVoltage ?c + 1.0 then [AnalogWrite 0] else []) @
      [AnalogWrite ?d]"
    by (rule emitted_append)
  then have "set (pwm_writes (emitted s s')) \<subseteq> {0..150}"
    using d by (auto simp: pwm_writes_append pwm_writes_wait_actions)
  moreover have "last (trace s') = AnalogWrite (float_to_int (pwm s'))"
    by (simp add: s' write_output_effect)
  moreover have "float_to_int (pwm s') = ?d"
    by (simp add: s' write_output_effect)
  ultimately show ?thesis using d by simp
qed

text \<open>
  From the initial state in MPPT mode with 15 V in: the duty value goes from 0 to 1.
\<close>

theorem duty_cycle_within_limits_witness:
  "mppt F_CPU_8000000 (cycle_of sample_mppt [] idle due) initial_state \<noteq> None \<and>
   pwm (controllers idle due (readSensors F_CPU_8000000 sample_mppt initial_state)) = 1 \<and>
   set (pwm_writes (emitted initial_state
      (the (mppt F_CPU_8000000 (cycle_of sample_mppt [] idle due) initial_state)))) \<subseteq> {0..150} \<and>
   last (trace (the (mppt F_CPU_8000000 (cycle_of sample_mppt [] idle due) initial_state)))
     = AnalogWrite 1"
proof -
  let ?i = "cycle_of sample_mppt [] idle due"
  let ?m = "readSensors F_CPU_8000000 sample_mppt initial_state"
  have a: "acquire F_CPU_8000000 ?i initial_state = Some ?m"
    by (simp add: acquire_def undervoltage_def sensor_defs input_defs)
  then have ne: "mppt F_CPU_8000000 ?i initial_state \<noteq> None"
    by (simp add: mppt_def)
  then have r: "mppt F_CPU_8000000 ?i initial_state = Some (the (mppt F_CPU_8000000 ?i initial_state))"
    by auto
  have c: "pwm (controllers idle due ?m) = 1"
    by (simp add: cycle_defs sensor_defs input_defs)
  have o: "\<not> outputVoltage ?m > targetOutputVoltage ?m + 1.0"
    by (simp add: sensor_defs input_defs)
  have p: "pwm (the (mppt F_CPU_8000000 ?i initial_state)) = 1"
    using a c o
    by (simp add: mppt_def cycle_of_def write_output_effect protection_effect controllers_frame
        constrain_def)
  from duty_cycle_within_limits [OF r] ne c p show ?thesis
    by (simp add: float_to_int_def)
qed

text \<open>
  Claim C4 says that only the value sent to the hardware is clamped and that \<open>pwm\<close> itself
  can stay outside 0 to 150 from one cycle to the next. Line 285 assigns the clamped value to
  \<open>pwm\<close> itself: from the initial state the CV branch takes \<open>pwm\<close> to \<open>-0.3\<close>, and
  the cycle ends with \<open>pwm = 0\<close>.
\<close>

theorem accumulator_clamped_counterexample:
  "pwm (controllers idle idle (readSensors F_CPU_8000000 sample_cv initial_state)) = - (3 / 10) \<and>
   map_option pwm (mppt F_CPU_8000000 (cycle_of sample_cv [] idle idle) initial_state) = Some 0"
  by (simp add: cycle_defs sensor_defs input_defs)

text \<open>
  Claim C4, amended. At the end of every control cycle \<open>pwm\<close> itself lies between 0 and 150
  and the value written last is \<open>pwm\<close> converted to an integer; so in every state that
  passes of \<^verbatim>\<open>loop\<close> reach from the initial state \<open>pwm\<close> lies between 0 and 150. It
  leaves that range only within a cycle, between the arithmetic of the mode and line 285.
\<close>

theorem accumulator_clamped_every_cycle:
  "(mppt cpu i s = Some s' \<longrightarrow>
      0 \<le> pwm s' \<and> pwm s' \<le> 150 \<and> last (trace s') = AnalogWrite (float_to_int (pwm s'))) \<and>
   (run cpu ins initial_state = Some r \<longrightarrow> 0 \<le> pwm r \<and> pwm r \<le> 150)"
proof -
  have "last (trace s') = AnalogWrite (float_to_int (pwm s'))" if "mppt cpu i s = Some s'"
  proof -
    from mppt_Some [OF that] obtain m
      where "s' = write_output (print_timer i)
                    (protection (controllers (mppt_timer i) (calc_timer i) m))"
      by blast
    then show ?thesis by (simp add: write_output_effect)
  qed
  moreover have "0 \<le> pwm initial_state \<and> pwm initial_state \<le> 150"
    by (simp add: initial_state_def)
  ultimately show ?thesis
    using mppt_pwm_range [of cpu i s s'] run_pwm_range [of cpu ins initial_state r]
    by blast
qed

text \<open>
  One cycle, and one pass of \<^verbatim>\<open>loop\<close>, from the initial state.
\<close>

theorem accumulator_clamped_every_cycle_witness:
  "mppt F_CPU_8000000 (cycle_of sample_cv [] idle idle) initial_state \<noteq> None \<and>
   run F_CPU_8000000 [pass_cv] initial_state \<noteq> None \<and>
   0 \<le> pwm (the (mppt F_CPU_8000000 (cycle_of sample_cv [] idle idle) initial_state)) \<and>
   pwm (the (mppt F_CPU_8000000 (cycle_of sample_cv [] idle idle) initial_state)) \<le> 150 \<and>
   0 \<le> pwm (the (run F_CPU_8000000 [pass_cv] initial_state)) \<and>
   pwm (the (run F_CPU_8000000 [pass_cv] initial_state)) \<le> 150"
proof -
  let ?i = "cycle_of sample_cv [] idle idle"
  have a: "mppt F_CPU_8000000 ?i initial_state \<noteq> None"
    by (simp add: mppt_def acquire_def undervoltage_def sensor_defs input_defs)
  have "mppt F_CPU_8000000 ?i (readPot 0 initial_state) \<noteq> None"
    by (simp add: mppt_def acquire_def undervoltage_def readPot_def sensor_defs input_defs)
  then have b: "run F_CPU_8000000 [pass_cv] initial_state \<noteq> None"
    by (auto simp: loop_def pass_cv_def split: option.splits)
  from a b accumulator_clamped_every_cycle [of F_CPU_8000000 ?i initial_state
      "the (mppt F_CPU_8000000 ?i initial_state)" "[pass_cv]"
      "the (run F_CPU_8000000 [pass_cv] initial_state)"]
  show ?thesis by auto
qed

text \<open>
  Claim C5 says that from \<open>targetPanelVoltage = minPanelVoltage\<close> the next update gives the
  midpoint. Tracking upwards it does not: from 12 V with the increment 0.5 the target becomes
  12.5 V, while the midpoint is 14 V.
\<close>

theorem direction_subloop_limits_counterexample:
  "targetPanelVoltage (initial_state\<lparr>targetPanelVoltage := 12\<rparr>)
     = minPanelVoltage (initial_state\<lparr>targetPanelVoltage := 12\<rparr>) \<and>
   targetPanelVoltage (direction_subloop 1000 (initial_state\<lparr>targetPanelVoltage := 12\<rparr>)) = 25 / 2 \<and>
   (minPanelVoltage (initial_state\<lparr>targetPanelVoltage := 12\<rparr>)
     + maxPanelVoltage (initial_state\<lparr>targetPanelVoltage := 12\<rparr>)) / 2 = 14"
  by (simp add: direction_subloop_def step_target_def Let_def initial_state_def)

text \<open>
  Claim C5, amended. The direction sub-loop first moves \<open>targetPanelVoltage\<close> by
  \<open>trackingIncrement\<close> in the current direction. If the stepped value is at or below
  \<open>minPanelVoltage\<close> or at or above \<open>maxPanelVoltage\<close>, the target becomes
  \<open>(minPanelVoltage + maxPanelVoltage) / 2\<close> and the direction is left as it is; otherwise
  the target keeps the stepped value. In particular, from \<open>minPanelVoltage\<close> while tracking
  downwards, and from \<open>maxPanelVoltage\<close> while tracking upwards, with an increment that is
  not negative, the update gives the midpoint; and with \<open>minPanelVoltage \<le> maxPanelVoltage\<close>
  the updated target is never below \<open>minPanelVoltage\<close> nor above \<open>maxPanelVoltage\<close>.
\<close>

theorem direction_subloop_limits:
  "targetPanelVoltage (step_target s) =
     (if trackingDownwards s then targetPanelVoltage s - trackingIncrement s
      else targetPanelVoltage s + trackingIncrement s) \<and>
   (targetPanelVoltage (step_target s) \<le> minPanelVoltage s \<or>
    targetPanelVoltage (step_target s) \<ge> maxPanelVoltage s \<longrightarrow>
      targetPanelVoltage (direction_subloop now s) = (minPanelVoltage s + maxPanelVoltage s) / 2 \<and>
      trackingDownwards (direction_subloop now s) = trackingDownwards s) \<and>
   (minPanelVoltage s < targetPanelVoltage (step_target s) \<and>
    targetPanelVoltage (step_target s) < maxPanelVoltage s \<longrightarrow>
      targetPanelVoltage (direction_subloop now s) = targetPanelVoltage (step_target s)) \<and>
   (targetPanelVoltage s = minPanelVoltage s \<and> trackingDownwards s \<and> 0 \<le> trackingIncrement s \<longrightarrow>
      targetPanelVoltage (direction_subloop now s) = (minPanelVoltage s + maxPanelVoltage s) / 2) \<and>
   (targetPanelVoltage s = maxPanelVoltage s \<and> \<not> trackingDownwards s \<and> 0 \<le> trackingIncrement s \<longrightarrow>
      targetPanelVoltage (direction_subloop now s) = (minPanelVoltage s + maxPanelVoltage s) / 2) \<and>
   (minPanelVoltage s \<le> maxPanelVoltage s \<longrightarrow>
      minPanelVoltage s \<le> targetPanelVoltage (direction_subloop now s) \<and>
      targetPanelVoltage (direction_subloop now s) \<le> maxPanelVoltage s)"
  by (simp add: direction_subloop_def step_target_def Let_def)

text \<open>
  At 12 V tracking downwards, at 16 V tracking upwards, and at 14 V.
\<close>

theorem direction_subloop_limits_witness:
  "targetPanelVoltage (direction_subloop 1000
      (initial_state\<lparr>targetPanelVoltage := 12, trackingDownwards := True\<rparr>)) = 14 \<and>
   trackingDownwards (direction_subloop 1000
      (initial_state\<lparr>targetPanelVoltage := 12, trackingDownwards := True\<rparr>)) \<and>
   targetPanelVoltage (direction_subloop 1000 (initial_state\<lparr>targetPanelVoltage := 16\<rparr>)) = 14 \<and>
   \<not> trackingDownwards (direction_subloop 1000 (initial_state\<lparr>targetPanelVoltage := 16\<rparr>)) \<and>
   targetPanelVoltage (direction_subloop 1000 initial_state) = 29 / 2 \<and>
   12 \<le> targetPanelVoltage (direction_subloop 1000 initial_state)"
  using direction_subloop_limits
          [of "initial_state\<lparr>targetPanelVoltage := 12, trackingDownwards := True\<rparr>" 1000]
    direction_subloop_limits [of "initial_state\<lparr>targetPanelVoltage := 16\<rparr>" 1000]
    direction_subloop_limits [of initial_state 1000]
  by (simp add: initial_state_def)



text \<open>
  Claim C7. When \<open>outputVoltage < 1.0\<close> and \<open>inputVoltage < 15.0\<close> hold after sensor
  acquisition, the cycle reaches the arbitration only on a later snapshot \<open>m\<close> on which they
  do not hold: the first of the re-samples to clear the condition, after \<open>k > 0\<close> rounds of
  the wait. If no supplied round clears it, the cycle has not returned. Each round sets
  \<open>pwm\<close> to 0, writes duty 0, switches the LED on, delays 2000 ms, calls \<^verbatim>\<open>checkVcc\<close>
  (which reads the supply voltage anew when its timer is due) and reads the sensors again;
  \<open>controlMode\<close>, \<open>targetPanelVoltage\<close> and \<open>trackingDownwards\<close> are the same after the
  wait as before the cycle.
\<close>

theorem undervoltage_gate_blocks_cycle:
  assumes "undervoltage (readSensors cpu (adc0 i) s)"
  shows "(acquire cpu i s = None \<longrightarrow>
       mppt cpu i s = None \<and>
       list_all undervoltage (resamples cpu (waits i) (readSensors cpu (adc0 i) s))) \<and>
    (acquire cpu i s = Some m \<longrightarrow>
       \<not> undervoltage m \<and> pwm m = 0 \<and> controlMode m = controlMode s \<and>
       targetPanelVoltage m = targetPanelVoltage s \<and>
       trackingDownwards m = trackingDownwards s \<and>
       (\<exists>k. 0 < k \<and> k \<le> length (waits i) \<and>
          m = resamples cpu (waits i) (readSensors cpu (adc0 i) s) ! k \<and>
          (\<forall>j<k. undervoltage (resamples cpu (waits i) (readSensors cpu (adc0 i) s) ! j)) \<and>
          trace m = trace s @ concat (replicate k wait_actions) \<and>
          pwm_writes (emitted s m) = replicate k 0)) \<and>
    (pwm (wait_round cpu w x) = 0 \<and> trace (wait_round cpu w x) = trace x @ wait_actions \<and>
     wait_round cpu w x =
       readSensors cpu (wait_adc w)
         (checkVcc (wait_vcc w) (x\<lparr>pwm := 0, trace := trace x @ wait_actions\<rparr>)) \<and>
     (1000 \<le> t_test (vcc_timer (wait_vcc w)) - lastVcc x \<longrightarrow>
        vcc (wait_round cpu w x) = real_of_int (vcc_mv (wait_vcc w)) / 1000))"
proof -
  let ?s0 = "readSensors cpu (adc0 i) s"
  let ?rs = "resamples cpu (waits i) ?s0"
  have none: "mppt cpu i s = None \<and> list_all undervoltage ?rs" if "acquire cpu i s = None"
    using that undervoltage_wait_None [of cpu "waits i" ?s0]
    by (simp add: mppt_def acquire_def)
  have some: "\<not> undervoltage m \<and> pwm m = 0 \<and> controlMode m = controlMode s \<and>
       targetPanelVoltage m = targetPanelVoltage s \<and>
       trackingDownwards m = trackingDownwards s \<and>
       (\<exists>k. 0 < k \<and> k \<le> length (waits i) \<and> m = ?rs ! k \<and>
          (\<forall>j<k. undervoltage (?rs ! j)) \<and>
          trace m = trace s @ concat (replicate k wait_actions) \<and>
          pwm_writes (emitted s m) = replicate k 0)"
    if "acquire cpu i s = Some m"
  proof -
    from that have "undervoltage_wait cpu (waits i) ?s0 = Some m"
      by (simp add: acquire_def)
    from undervoltage_wait_Some [OF this] assms
    obtain k where clear: "\<not> undervoltage m" and k: "k \<le> length (waits i)" "0 < k"
      and mk: "m = ?rs ! k" and before: "\<forall>j<k. undervoltage (?rs ! j)"
      by blast
    from resamples_nth [OF k(1), of cpu ?s0] mk k(2)
    have fr: "pwm m = 0" "controlMode m = controlMode s"
      "targetPanelVoltage m = targetPanelVoltage s" "trackingDownwards m = trackingDownwards s"
      "trace m = trace s @ concat (replicate k wait_actions)"
      by (simp_all add: readSensors_frame)
    from fr(5) have "pwm_writes (emitted s m) = replicate k 0"
      by (simp add: emitted_def pwm_writes_wait_actions)
    with clear k mk before fr show ?thesis by blast
  qed
  from none some wait_round_effect(1,6) [of cpu w x] wait_round_anatomy [of cpu w x]
    wait_round_vcc [of w x cpu]
  show ?thesis by blast
qed

text \<open>
  From the initial state with 9 V in and 0 V out: no round, or one more dark round, and the
  cycle has not returned; a second round with 15 V in and 5 V out ends the wait.
\<close>

theorem undervoltage_gate_blocks_cycle_witness:
  "undervoltage (readSensors F_CPU_8000000 sample_dark initial_state) \<and>
   mppt F_CPU_8000000 (cycle_of sample_dark [] idle idle) initial_state = None \<and>
   mppt F_CPU_8000000 (cycle_of sample_dark [wait_dark] idle idle) initial_state = None \<and>
   acquire F_CPU_8000000 (cycle_of sample_dark [wait_dark, wait_cv] idle idle) initial_state
     \<noteq> None \<and>
   pwm (the (acquire F_CPU_8000000 (cycle_of sample_dark [wait_dark, wait_cv] idle idle)
      initial_state)) = 0 \<and>
   controlMode (the (acquire F_CPU_8000000 (cycle_of sample_dark [wait_dark, wait_cv] idle idle)
      initial_state)) = 0 \<and>
   \<not> undervoltage (the (acquire F_CPU_8000000
      (cycle_of sample_dark [wait_dark, wait_cv] idle idle) initial_state)) \<and>
   1000 \<le> t_test (vcc_timer (wait_vcc wait_dark)) - lastVcc initial_state \<and>
   vcc (wait_round F_CPU_8000000 wait_dark initial_state) = 5"
proof -
  let ?i0 = "cycle_of sample_dark [] idle idle"
  let ?i1 = "cycle_of sample_dark [wait_dark] idle idle"
  let ?i2 = "cycle_of sample_dark [wait_dark, wait_cv] idle idle"
  have u: "undervoltage (readSensors F_CPU_8000000 sample_dark initial_state)"
    by (rule dark_rounds)
  have a0: "acquire F_CPU_8000000 ?i0 initial_state = None"
    by (simp add: acquire_def cycle_of_def dark_rounds)
  have a1: "acquire F_CPU_8000000 ?i1 initial_state = None"
    by (simp add: acquire_def cycle_of_def dark_rounds)
  have a2: "acquire F_CPU_8000000 ?i2 initial_state \<noteq> None"
    by (simp add: acquire_def cycle_of_def dark_rounds)
  have c: "controlMode initial_state = 0"
    by (simp add: initial_state_def)
  have adc: "adc0 ?i0 = sample_dark" "adc0 ?i1 = sample_dark" "adc0 ?i2 = sample_dark"
    by (simp_all add: cycle_of_def)
  from u adc have u0: "undervoltage (readSensors F_CPU_8000000 (adc0 ?i0) initial_state)"
    and u1: "undervoltage (readSensors F_CPU_8000000 (adc0 ?i1) initial_state)"
    and u2: "undervoltage (readSensors F_CPU_8000000 (adc0 ?i2) initial_state)"
    by simp_all
  from a2 obtain m where m: "acquire F_CPU_8000000 ?i2 initial_state = Some m"
    by blast
  from undervoltage_gate_blocks_cycle [OF u0, of m] a0
  have r0: "mppt F_CPU_8000000 ?i0 initial_state = None" by blast
  from undervoltage_gate_blocks_cycle [OF u1, of m] a1
  have r1: "mppt F_CPU_8000000 ?i1 initial_state = None" by blast
  from undervoltage_gate_blocks_cycle [OF u2, of m] m c
  have r2: "\<not> undervoltage m \<and> pwm m = 0 \<and> controlMode m = 0" by simp
  have t: "1000 \<le> t_test (vcc_timer (wait_vcc wait_dark)) - lastVcc initial_state"
    by (simp add: wait_dark_def vcc_due_def due_def initial_state_def)
  from undervoltage_gate_blocks_cycle [OF u2, of m wait_dark initial_state] t
  have "vcc (wait_round F_CPU_8000000 wait_dark initial_state)
      = real_of_int (vcc_mv (wait_vcc wait_dark)) / 1000"
    by blast
  moreover have "vcc_mv (wait_vcc wait_dark) = 5000"
    by (simp add: wait_dark_def vcc_due_def)
  ultimately have r3: "vcc (wait_round F_CPU_8000000 wait_dark initial_state) = 5"
    by simp
  from u r0 r1 r2 r3 t m show ?thesis by simp
qed



text \<open>
  Claim C9 says that \<open>outputPower\<close> is the current of this cycle times the output
  voltage of the previous cycle. In a cycle with an undervoltage wait it is not: after a
  cycle that left 3.75 V, a dark first sample stores 0 V, and the round of the wait that
  measures 225/1024 A multiplies it by that 0 V.
\<close>

theorem outputPower_previous_cycle_counterexample:
  "outputVoltage (the (mppt F_CPU_16000000 (cycle_of sample_mppt [] idle idle) initial_state))
     = 15 / 4 \<and>
   map_option outputCurrent
     (mppt F_CPU_16000000 (cycle_of sample_dark [wait_load] idle idle)
       (the (mppt F_CPU_16000000 (cycle_of sample_mppt [] idle idle) initial_state)))
     = Some (225 / 1024) \<and>
   map_option outputPower
     (mppt F_CPU_16000000 (cycle_of sample_dark [wait_load] idle idle)
       (the (mppt F_CPU_16000000 (cycle_of sample_mppt [] idle idle) initial_state)))
     = Some 0"
proof -
  let ?p = "the (mppt F_CPU_16000000 (cycle_of sample_mppt [] idle idle) initial_state)"
  let ?m = "wait_round F_CPU_16000000 wait_load (readSensors F_CPU_16000000 sample_dark ?p)"
  note l = load_after_dark [OF first_cycle_fields(3,4,5)]
  have "acquire F_CPU_16000000 (cycle_of sample_dark [wait_load] idle idle) ?p = Some ?m"
    using l(1,2) by (simp add: acquire_def cycle_of_def)
  then show ?thesis
    using l(3,4) first_cycle_fields(2) by (simp add: mppt_def cycle_tail_frame)
qed

text \<open>
  Claim C9, amended. Each call of \<^verbatim>\<open>readSensors\<close>, in the first acquisition of a cycle and
  in each round of the undervoltage wait, sets \<open>outputPower\<close> to the product of the new
  \<open>outputCurrent\<close> and the \<open>outputVoltage\<close> the previous call stored, and computes the new
  \<open>outputVoltage\<close> only afterwards. So at the end of a cycle without undervoltage wait
  \<open>outputPower\<close> is the current of this cycle times the output voltage of the previous
  cycle; at the end of a cycle whose wait ran \<open>k > 0\<close> rounds it is that current times the
  output voltage of the re-sample before the last one of the same cycle.
\<close>

theorem outputPower_uses_stored_outputVoltage:
  "outputPower (readSensors cpu a s) = outputVoltage s * outputCurrent (readSensors cpu a s) \<and>
   outputVoltage (readSensors cpu a s) =
     inputVoltage (readSensors cpu a s) - real_of_int (vsense_out a) * vcc s / 92 \<and>
   outputPower (wait_round cpu w x) = outputVoltage x * outputCurrent (wait_round cpu w x) \<and>
   (mppt cpu i s = Some s' \<longrightarrow>
      (\<exists>k\<le>length (waits i).
         (\<forall>j<k. undervoltage (resamples cpu (waits i) (readSensors cpu (adc0 i) s) ! j)) \<and>
         \<not> undervoltage (resamples cpu (waits i) (readSensors cpu (adc0 i) s) ! k) \<and>
         outputVoltage s' =
           outputVoltage (resamples cpu (waits i) (readSensors cpu (adc0 i) s) ! k) \<and>
         outputCurrent s' =
           outputCurrent (resamples cpu (waits i) (readSensors cpu (adc0 i) s) ! k) \<and>
         outputPower s' =
           (if k = 0 then outputVoltage s
            else outputVoltage (resamples cpu (waits i) (readSensors cpu (adc0 i) s) ! (k - 1)))
           * outputCurrent s')) \<and>
   (mppt cpu i s = Some s' \<and> \<not> undervoltage (readSensors cpu (adc0 i) s) \<longrightarrow>
      outputPower s' = outputVoltage s * outputCurrent s')"
proof -
  let ?s0 = "readSensors cpu (adc0 i) s"
  let ?rs = "resamples cpu (waits i) ?s0"
  have volt: "outputVoltage (readSensors cpu a s) =
      inputVoltage (readSensors cpu a s) - real_of_int (vsense_out a) * vcc s / 92"
    by (simp add: readSensors_voltages)
  have cyc: "\<exists>k\<le>length (waits i).
         (\<forall>j<k. undervoltage (?rs ! j)) \<and> \<not> undervoltage (?rs ! k) \<and>
         outputVoltage s' = outputVoltage (?rs ! k) \<and>
         outputCurrent s' = outputCurrent (?rs ! k) \<and>
         outputPower s' =
           (if k = 0 then outputVoltage s else outputVoltage (?rs ! (k - 1))) * outputCurrent s'"
    if run: "mppt cpu i s = Some s'"
  proof -
    from mppt_Some [OF run] obtain m where m: "acquire cpu i s = Some m"
      and s': "s' = write_output (print_timer i)
                     (protection (controllers (mppt_timer i) (calc_timer i) m))"
      by blast
    from m have "undervoltage_wait cpu (waits i) ?s0 = Some m"
      by (simp add: acquire_def)
    from undervoltage_wait_Some [OF this]
    obtain k where clear: "\<not> undervoltage m" and k: "k \<le> length (waits i)"
      and mk: "m = ?rs ! k" and before: "\<forall>j<k. undervoltage (?rs ! j)"
      by blast
    have tail: "outputVoltage s' = outputVoltage m" "outputCurrent s' = outputCurrent m"
      "outputPower s' = outputPower m"
      by (simp_all add: s' cycle_tail_frame)
    have "outputPower m =
        (if k = 0 then outputVoltage s else outputVoltage (?rs ! (k - 1))) * outputCurrent m"
    proof (cases k)
      case 0
      then show ?thesis
        by (simp add: mk resamples_0 readSensors_power)
    next
      case (Suc j)
      with k have "j < length (waits i)" by simp
      from resamples_Suc [OF this, of cpu ?s0] Suc show ?thesis
        by (simp add: mk wait_round_power)
    qed
    with tail clear k mk before show ?thesis by auto
  qed
  have direct: "outputPower s' = outputVoltage s * outputCurrent s'"
    if run: "mppt cpu i s = Some s'" and ok: "\<not> undervoltage ?s0"
  proof -
    from cyc [OF run] obtain k where before: "\<forall>j<k. undervoltage (?rs ! j)"
      and p: "outputPower s' =
           (if k = 0 then outputVoltage s else outputVoltage (?rs ! (k - 1))) * outputCurrent s'"
      by blast
    have "k = 0"
    proof (rule ccontr)
      assume "k \<noteq> 0"
      with before have "undervoltage (?rs ! 0)" by simp
      with ok show False by (simp add: resamples_0)
    qed
    with p show ?thesis by simp
  qed
  from readSensors_power [of cpu a s] volt wait_round_power [of cpu w x] cyc direct
  show ?thesis by blast
qed

text \<open>
  After a first acquisition with 3.75 V out, a cycle without wait measuring 225/1024 A.
\<close>

theorem outputPower_uses_stored_outputVoltage_witness:
  "mppt F_CPU_16000000 (cycle_of sample_load [] idle idle)
     (readSensors F_CPU_16000000 sample_mppt initial_state) \<noteq> None \<and>
   \<not> undervoltage (readSensors F_CPU_16000000 sample_load
       (readSensors F_CPU_16000000 sample_mppt initial_state)) \<and>
   outputVoltage (readSensors F_CPU_16000000 sample_mppt initial_state) = 15 / 4 \<and>
   outputCurrent (the (mppt F_CPU_16000000 (cycle_of sample_load [] idle idle)
       (readSensors F_CPU_16000000 sample_mppt initial_state))) = 225 / 1024 \<and>
   outputPower (the (mppt F_CPU_16000000 (cycle_of sample_load [] idle idle)
       (readSensors F_CPU_16000000 sample_mppt initial_state))) = 15 / 4 * (225 / 1024)"
proof -
  let ?s = "readSensors F_CPU_16000000 sample_mppt initial_state"
  let ?i = "cycle_of sample_load [] idle idle"
  let ?s' = "the (mppt F_CPU_16000000 ?i ?s)"
  have s: "outputVoltage ?s = 15 / 4"
    by (simp add: sensor_defs input_defs)
  have u: "\<not> undervoltage (readSensors F_CPU_16000000 sample_load ?s)"
    by (simp add: undervoltage_def sensor_defs input_defs sample_load_def)
  then have a: "acquire F_CPU_16000000 ?i ?s = Some (readSensors F_CPU_16000000 sample_load ?s)"
    by (simp add: acquire_def cycle_of_def)
  then have ne: "mppt F_CPU_16000000 ?i ?s \<noteq> None"
    by (simp add: mppt_def)
  then have r: "mppt F_CPU_16000000 ?i ?s = Some ?s'"
    by auto
  have "outputCurrent (readSensors F_CPU_16000000 sample_load ?s) = 225 / 1024"
    by (simp add: sensor_defs input_defs sample_load_def)
  with a have c: "outputCurrent ?s' = 225 / 1024"
    by (simp add: mppt_def cycle_tail_frame)
  have d: "adc0 ?i = sample_load"
    by (simp add: cycle_of_def)
  from outputPower_uses_stored_outputVoltage
         [of F_CPU_16000000 sample_load ?s wait_load ?s ?i ?s'] r u d
  have "outputPower ?s' = outputVoltage ?s * outputCurrent ?s'"
    by simp
  then have p: "outputPower ?s' = 15 / 4 * (225 / 1024)"
    by (simp only: s c)
  from ne u s c p show ?thesis by blast
qed

text \<open>
  Claim C10. When \<open>outputVoltage > targetOutputVoltage + 1.0\<close> in a cycle, the lockout sets
  \<open>pwm\<close> itself to 0, not only the value written: the cycle ends with \<open>pwm = 0\<close>,
  \<^verbatim>\<open>checkVcc\<close> and \<^verbatim>\<open>readPot\<close> leave it there, and the snapshot on which the controllers
  of the next cycle work has \<open>pwm = 0\<close>.
\<close>

theorem lockout_resets_accumulator:
  assumes "mppt cpu i s = Some s'"
    and "outputVoltage s' > targetOutputVoltage s' + 1.0"
  shows "pwm s' = 0 \<and> pwm (checkVcc v s') = 0 \<and>
    (acquire cpu j (readPot p (checkVcc v s')) = Some m \<longrightarrow> pwm m = 0)"
proof -
  from mppt_Some [OF assms(1)] obtain m0
    where s': "s' = write_output (print_timer i)
                     (protection (controllers (mppt_timer i) (calc_timer i) m0))"
    by blast
  let ?c = "controllers (mppt_timer i) (calc_timer i) m0"
  from assms(2) have "outputVoltage ?c > targetOutputVoltage ?c + 1.0"
    by (simp add: s' write_output_frame protection_frame)
  then have "pwm (protection ?c) = 0"
    by (simp add: protection_effect)
  then have p: "pwm s' = 0"
    by (simp add: s' write_output_effect constrain_def)
  then have q: "pwm (readPot p (checkVcc v s')) = 0"
    by (simp add: readPot_frame checkVcc_frame)
  have "pwm m = 0" if "acquire cpu j (readPot p (checkVcc v s')) = Some m"
    using acquire_pwm [OF that] q by auto
  with p show ?thesis
    by (simp add: checkVcc_frame)
qed

text \<open>
  A cycle entered with \<open>pwm = 100\<close> and 15 V out: the CV branch leaves 89.2, the cycle ends
  with 0, and the next cycle starts from 0.
\<close>

theorem lockout_resets_accumulator_witness:
  "mppt F_CPU_8000000 (cycle_of sample_over [] idle idle) (initial_state\<lparr>pwm := 100\<rparr>) \<noteq> None \<and>
   pwm (controllers idle idle
     (readSensors F_CPU_8000000 sample_over (initial_state\<lparr>pwm := 100\<rparr>))) = 446 / 5 \<and>
   pwm (the (mppt F_CPU_8000000 (cycle_of sample_over [] idle idle)
     (initial_state\<lparr>pwm := 100\<rparr>))) = 0 \<and>
   acquire F_CPU_8000000 (cycle_of sample_cv [] idle idle)
     (readPot 0 (checkVcc vcc_idle (the (mppt F_CPU_8000000 (cycle_of sample_over [] idle idle)
        (initial_state\<lparr>pwm := 100\<rparr>))))) \<noteq> None \<and>
   pwm (the (acquire F_CPU_8000000 (cycle_of sample_cv [] idle idle)
     (readPot 0 (checkVcc vcc_idle (the (mppt F_CPU_8000000 (cycle_of sample_over [] idle idle)
        (initial_state\<lparr>pwm := 100\<rparr>))))))) = 0"
proof -
  let ?s = "initial_state\<lparr>pwm := 100\<rparr>"
  let ?i = "cycle_of sample_over [] idle idle"
  let ?m = "readSensors F_CPU_8000000 sample_over ?s"
  let ?s' = "the (mppt F_CPU_8000000 ?i ?s)"
  let ?n = "readPot 0 (checkVcc vcc_idle ?s')"
  have a: "acquire F_CPU_8000000 ?i ?s = Some ?m"
    by (simp add: acquire_def undervoltage_def readSensors_voltages cycle_of_def sample_over_def
        initial_state_def)
  then have ne: "mppt F_CPU_8000000 ?i ?s \<noteq> None"
    by (simp add: mppt_def)
  then have r: "mppt F_CPU_8000000 ?i ?s = Some ?s'"
    by auto
  have o: "outputVoltage ?s' > targetOutputVoltage ?s' + 1.0"
    using a by (simp add: mppt_def write_output_frame protection_frame controllers_frame
        readSensors_voltages readSensors_frame sample_over_def initial_state_def)
  have v: "vcc ?s' = 9 / 2"
    using a by (simp add: mppt_def cycle_defs sensor_defs input_defs)
  have "vcc ?n = 9 / 2"
    using v by (simp add: readPot_def checkVcc_def vcc_idle_def)
  then have "\<not> undervoltage (readSensors F_CPU_8000000 sample_cv ?n)"
    by (simp add: undervoltage_def readSensors_voltages sample_cv_def)
  then have b: "acquire F_CPU_8000000 (cycle_of sample_cv [] idle idle) ?n \<noteq> None"
    by (simp add: acquire_def cycle_of_def)
  then obtain m where m: "acquire F_CPU_8000000 (cycle_of sample_cv [] idle idle) ?n = Some m"
    by blast
  from lockout_resets_accumulator [OF r o, of vcc_idle "cycle_of sample_cv [] idle idle" 0 m] m
  have "pwm ?s' = 0" and "pwm m = 0" by simp_all
  with ne b m charged_overvoltage show ?thesis
    by simp
qed

end
